(* ===== verification/Prelude.thy ===== *)
theory Prelude
  imports Complex_Main "HOL-Library.Char_ord" "HOL-Library.List_Lexorder" "HOL-Library.AList"
begin

text \<open>
  Shared vocabulary of the billing-page development: the collections of
  evaluation rules the component theories fill, the type names of the model,
  and the generic lemmas on lists, characters and association lists that the
  component proofs use.  Strings of the page are modelled as \<^typ>\<open>string\<close>
  (lists of bytes); the dates, month keys and numeric texts the program handles
  are ASCII, where byte order and the UTF-16 code-unit order of JavaScript agree.
\<close>

named_theorems js_simps \<open>evaluation rules of the modelled JavaScript runtime\<close>
named_theorems cart_simps \<open>evaluation rules of the cart operations\<close>
named_theorems ledger_simps \<open>evaluation rules of the sales ledger\<close>

type_synonym js_string = string
type_synonym row_handle = nat

subsection \<open>Decimal digit characters\<close>

definition is_digit :: "char \<Rightarrow> bool" where
  "is_digit c \<longleftrightarrow> 48 \<le> (of_char c :: nat) \<and> (of_char c :: nat) \<le> 57"

definition digit_char :: "nat \<Rightarrow> char" where
  "digit_char d = char_of (48 + d)"

definition digit_val :: "char \<Rightarrow> nat" where
  "digit_val c = of_char c - 48"

lemma is_digit_digit_char [simp]: "d < 10 \<Longrightarrow> is_digit (digit_char d)"
  by (simp add: is_digit_def digit_char_def of_char_of)

lemma digit_val_digit_char [simp]: "d < 10 \<Longrightarrow> digit_val (digit_char d) = d"
  by (simp add: digit_val_def digit_char_def of_char_of)

lemma digit_val_zero [simp]: "digit_val CHR ''0'' = 0" and is_digit_zero [simp]: "is_digit CHR ''0''"
  by (simp_all add: digit_val_def is_digit_def)

lemma digit_char_simps [simp]:
  "digit_char 0 = CHR ''0''" "digit_char (Suc 0) = CHR ''1''" "digit_char 1 = CHR ''1''"
  "digit_char 2 = CHR ''2''" "digit_char 3 = CHR ''3''" "digit_char 4 = CHR ''4''"
  "digit_char 5 = CHR ''5''" "digit_char 6 = CHR ''6''" "digit_char 7 = CHR ''7''"
  "digit_char 8 = CHR ''8''" "digit_char 9 = CHR ''9''"
  unfolding digit_char_def by code_simp+

lemma digit_val_less [simp]: "is_digit c \<Longrightarrow> digit_val c < 10"
  unfolding is_digit_def digit_val_def by linarith

lemma is_digit_digit_chars [simp]:
  "is_digit CHR ''1''" "is_digit CHR ''2''" "is_digit CHR ''3''" "is_digit CHR ''4''"
  "is_digit CHR ''5''" "is_digit CHR ''6''" "is_digit CHR ''7''" "is_digit CHR ''8''"
  "is_digit CHR ''9''"
  by (simp_all add: is_digit_def)

lemma is_digit_char_cases [simp, js_simps]:
  "\<not> is_digit CHR ''.''" "\<not> is_digit CHR ''-''" "\<not> is_digit CHR ''+''" "\<not> is_digit CHR ''I''"
  "\<not> is_digit CHR ''e''" "\<not> is_digit CHR ''E''" "\<not> is_digit CHR ''x''"
  by (simp_all add: is_digit_def)

lemma digit_not_letter [simp]:
  "is_digit c \<Longrightarrow> c \<noteq> CHR ''I''" "is_digit c \<Longrightarrow> c \<noteq> CHR ''.''"
  "is_digit c \<Longrightarrow> c \<noteq> CHR ''-''" "is_digit c \<Longrightarrow> c \<noteq> CHR ''+''"
  by (auto simp: is_digit_def)

subsection \<open>Lists\<close>

text \<open>Scanning a prefix of digits stops at the first character that is not one.\<close>

lemma takeWhile_append_stop [simp]:
  "(\<forall>x\<in>set xs. P x) \<Longrightarrow> \<not> P y \<Longrightarrow> takeWhile P (xs @ y # ys) = xs"
  by (induction xs) auto

lemma dropWhile_append_stop [simp]:
  "(\<forall>x\<in>set xs. P x) \<Longrightarrow> \<not> P y \<Longrightarrow> dropWhile P (xs @ y # ys) = y # ys"
  by (induction xs) auto

lemma takeWhile_all [simp]: "(\<forall>x\<in>set xs. P x) \<Longrightarrow> takeWhile P xs = xs"
  by (induction xs) auto

lemma dropWhile_all [simp]: "(\<forall>x\<in>set xs. P x) \<Longrightarrow> dropWhile P xs = []"
  by (induction xs) auto

lemma replicate_3: "replicate 3 c = [c, c, c]"
  by (simp add: numeral_3_eq_3)

text \<open>Dropping the one element of a key from a list with distinct keys subtracts its term from a sum.\<close>

lemma sum_list_filter_key:
  fixes g :: "'a \<Rightarrow> 'b::ab_group_add"
  assumes "distinct (map k xs)" and "x \<in> set xs"
  shows "(\<Sum>y\<leftarrow>filter (\<lambda>y. k y \<noteq> k x) xs. g y) = (\<Sum>y\<leftarrow>xs. g y) - g x"
  using assms
proof (induction xs)
  case (Cons y ys)
  show ?case
  proof (cases "y = x")
    case True
    with Cons.prems have "\<forall>z\<in>set ys. k z \<noteq> k x" by (auto simp: image_iff)
    then have "filter (\<lambda>z. k z \<noteq> k x) ys = ys" by (simp add: filter_id_conv)
    with True show ?thesis by simp
  next
    case False
    with Cons.prems have "k y \<noteq> k x" by (auto simp: image_iff)
    with False Cons show ?thesis by (simp add: algebra_simps)
  qed
qed simp

subsection \<open>Association lists in insertion order\<close>

text \<open>
  A JavaScript plain object used as a dictionary keeps its keys in insertion
  order; \<^const>\<open>AList.update\<close> overwrites in place and appends new keys, so it is
  the model of an assignment \<open>obj[k] = v\<close>.
\<close>

lemma distinct_update_keys [simp]:
  "distinct (map fst xs) \<Longrightarrow> distinct (map fst (AList.update k v xs))"
  by (simp add: AList.distinct_update)

end
