(* ===== verification/JsNumber.thy ===== *)
theory JsNumber
  imports Prelude
begin

text \<open>
  The part of the JavaScript runtime the billing code relies on for numbers:
  the Number type, \<open>+\<close> and \<open>*\<close>, truthiness (\<open>x || 0\<close>), \<open>parseFloat\<close>,
  \<open>Number(string)\<close>, \<open>Number.prototype.toString\<close> and \<open>toFixed\<close>, following
  ECMAScript 2023 (sections 7.1.4, 19.2.4, 21.1.3).  A finite Number is modelled
  by its exact value, a \<^typ>\<open>rat\<close>; NaN and the two infinities are constructors.
  Rounding of arithmetic to binary64, overflow to Infinity and the sign of zero
  are not modelled (see the header of Spec2Isabelle).
\<close>

datatype jsnum = Num rat | NaN | PosInf | NegInf

subsection \<open>Arithmetic and truthiness\<close>

fun js_neg :: "jsnum \<Rightarrow> jsnum" where
  "js_neg (Num a) = Num (- a)"
| "js_neg NaN = NaN"
| "js_neg PosInf = NegInf"
| "js_neg NegInf = PosInf"

fun js_add :: "jsnum \<Rightarrow> jsnum \<Rightarrow> jsnum" where
  "js_add (Num a) (Num b) = Num (a + b)"
| "js_add NaN y = NaN"
| "js_add x NaN = NaN"
| "js_add PosInf NegInf = NaN"
| "js_add NegInf PosInf = NaN"
| "js_add PosInf y = PosInf"
| "js_add NegInf y = NegInf"
| "js_add x PosInf = PosInf"
| "js_add x NegInf = NegInf"

text \<open>The sign of a non-NaN value, as \<open>Number::multiply\<close> combines it with infinity.\<close>

fun js_sign :: "jsnum \<Rightarrow> int" where
  "js_sign (Num a) = (if 0 < a then 1 else if a < 0 then -1 else 0)"
| "js_sign PosInf = 1"
| "js_sign NegInf = -1"
| "js_sign NaN = 0"

fun js_mul :: "jsnum \<Rightarrow> jsnum \<Rightarrow> jsnum" where
  "js_mul (Num a) (Num b) = Num (a * b)"
| "js_mul NaN y = NaN"
| "js_mul x NaN = NaN"
| "js_mul x y =
     (if js_sign x * js_sign y = 0 then NaN
      else if js_sign x * js_sign y > 0 then PosInf else NegInf)"

fun js_truthy :: "jsnum \<Rightarrow> bool" where
  "js_truthy (Num a) = (a \<noteq> 0)"
| "js_truthy NaN = False"
| "js_truthy PosInf = True"
| "js_truthy NegInf = True"

text \<open>\<open>x || 0\<close> on a Number: \<open>x\<close> when it is truthy, else \<open>0\<close>.\<close>

definition or_zero :: "jsnum \<Rightarrow> jsnum" where
  "or_zero x = (if js_truthy x then x else Num 0)"

fun is_nan :: "jsnum \<Rightarrow> bool" where
  "is_nan NaN = True"
| "is_nan _ = False"

fun is_finite :: "jsnum \<Rightarrow> bool" where
  "is_finite (Num _) = True"
| "is_finite _ = False"

text \<open>\<open>x <= 0\<close> on Numbers: false for NaN.\<close>

fun js_le_zero :: "jsnum \<Rightarrow> bool" where
  "js_le_zero (Num a) = (a \<le> 0)"
| "js_le_zero NaN = False"
| "js_le_zero PosInf = False"
| "js_le_zero NegInf = True"

subsection \<open>Decimal digit strings\<close>

fun digits_of_nat :: "nat \<Rightarrow> nat list" where
  "digits_of_nat n = (if n < 10 then [n] else digits_of_nat (n div 10) @ [n mod 10])"

declare digits_of_nat.simps [simp del]

definition string_of_nat :: "nat \<Rightarrow> string" where
  "string_of_nat n = map digit_char (digits_of_nat n)"

text \<open>The value of a string of digits, most significant first.\<close>

definition digits_value :: "string \<Rightarrow> nat" where
  "digits_value ds = foldl (\<lambda>a c. 10 * a + digit_val c) 0 ds"

text \<open>JavaScript white space and line terminators of the ASCII range.\<close>

definition is_js_space :: "char \<Rightarrow> bool" where
  "is_js_space c \<longleftrightarrow> c \<in> set [CHR 0x09, CHR 0x0A, CHR 0x0B, CHR 0x0C, CHR 0x0D, CHR 0x20]"

definition pow10 :: "int \<Rightarrow> rat" where
  "pow10 e = (if 0 \<le> e then 10 ^ nat e else 1 / 10 ^ nat (- e))"

subsection \<open>Reading numbers: \<open>parseFloat\<close> and \<open>Number(string)\<close>\<close>

text \<open>
  The optional exponent of a StrUnsignedDecimalLiteral: \<open>e\<close> or \<open>E\<close>, an
  optional sign and at least one digit.  Returns the exponent and the rest of the
  input; without a well-formed exponent part nothing is consumed.
\<close>

definition exponent_part :: "string \<Rightarrow> int \<times> string" where
  "exponent_part r =
     (case r of
        c # t \<Rightarrow>
          if c = CHR ''e'' \<or> c = CHR ''E'' then
            (let (sg, u) = (case t of
                              d # u' \<Rightarrow> if d = CHR ''+'' then (1::int, u')
                                        else if d = CHR ''-'' then (-1, u') else (1, t)
                            | [] \<Rightarrow> (1, t));
                 ds = takeWhile is_digit u
             in if ds = [] then (0, r) else (sg * int (digits_value ds), dropWhile is_digit u))
          else (0, r)
      | [] \<Rightarrow> (0, []))"

text \<open>
  The longest prefix of the input that is a StrUnsignedDecimalLiteral
  (\<open>Infinity\<close>, or digits with an optional fraction and exponent, at least one
  digit in all), its value and the rest of the input; \<^const>\<open>None\<close> when no prefix is.
\<close>

definition str_unsigned :: "string \<Rightarrow> (jsnum \<times> string) option" where
  "str_unsigned s =
     (if take 8 s = ''Infinity'' then Some (PosInf, drop 8 s)
      else
        let ip = takeWhile is_digit s;
            r1 = dropWhile is_digit s;
            (fp, r2) = (case r1 of
                          c # t \<Rightarrow> if c = CHR ''.'' then (takeWhile is_digit t, dropWhile is_digit t)
                                   else ([], r1)
                        | [] \<Rightarrow> ([], []))
        in if ip = [] \<and> fp = [] then None
           else let (e, r3) = exponent_part r2
                in Some (Num (of_nat (digits_value (ip @ fp)) * pow10 (e - int (length fp))), r3))"

text \<open>A StrDecimalLiteral: an unsigned literal with an optional sign.\<close>

definition str_decimal :: "string \<Rightarrow> (jsnum \<times> string) option" where
  "str_decimal s =
     (case s of
        c # t \<Rightarrow>
          if c = CHR ''+'' then str_unsigned t
          else if c = CHR ''-'' then map_option (apfst js_neg) (str_unsigned t)
          else str_unsigned s
      | [] \<Rightarrow> None)"

text \<open>\<open>parseFloat(s)\<close> (ECMAScript 19.2.4): skip leading white space, read the longest decimal prefix.\<close>

definition parse_float :: "string \<Rightarrow> jsnum" where
  "parse_float s = (case str_decimal (dropWhile is_js_space s) of None \<Rightarrow> NaN | Some (v, _) \<Rightarrow> v)"

subsection \<open>Writing numbers: \<open>Number::toString\<close> and \<open>toFixed\<close>\<close>

text \<open>
  The least \<open>j\<close> with \<open>r * 10^j\<close> an integer, searched up to the denominator of
  \<open>r\<close>, which bounds it for every value with a finite decimal expansion (every
  binary64 value has one).
\<close>

fun dec_exp_search :: "nat \<Rightarrow> nat \<Rightarrow> rat \<Rightarrow> nat" where
  "dec_exp_search 0 j r = j"
| "dec_exp_search (Suc f) j r =
     (if snd (quotient_of (r * 10 ^ j)) = 1 then j else dec_exp_search f (Suc j) r)"

definition dec_exp :: "rat \<Rightarrow> nat" where
  "dec_exp r = dec_exp_search (nat (snd (quotient_of r))) 0 r"

text \<open>Strip trailing decimal zeros: \<open>m = s * 10^t\<close> with \<open>s\<close> not a multiple of ten.\<close>

function strip_zeros :: "nat \<Rightarrow> nat \<times> nat" where
  "strip_zeros m =
     (if m \<noteq> 0 \<and> m mod 10 = 0 then apsnd Suc (strip_zeros (m div 10)) else (m, 0))"
  by pat_completeness auto
termination
  by (relation "measure id") auto

declare strip_zeros.simps [simp del]

text \<open>
  \<open>Number::toString(x)\<close> for \<open>x > 0\<close> (ECMAScript 6.1.6.1.20): with
  \<open>x = s * 10^(n-k)\<close>, \<open>s\<close> of \<open>k\<close> digits and no trailing zero, plain
  notation for \<open>-6 < n \<le> 21\<close> and exponent notation otherwise.
\<close>

definition to_string_pos :: "rat \<Rightarrow> string" where
  "to_string_pos x =
     (let j = dec_exp x;
          (s, t) = strip_zeros (nat \<lfloor>x * 10 ^ j\<rfloor>);
          ds = string_of_nat s;
          k = length ds;
          n = int k + int t - int j
      in if int k \<le> n \<and> n \<le> 21 then ds @ replicate (nat n - k) CHR ''0''
         else if 0 < n \<and> n \<le> 21 then take (nat n) ds @ CHR ''.'' # drop (nat n) ds
         else if -6 < n \<and> n \<le> 0 then ''0.'' @ replicate (nat (- n)) CHR ''0'' @ ds
         else
           let e = n - 1;
               es = (if 0 \<le> e then CHR ''+'' else CHR ''-'') # string_of_nat (nat \<bar>e\<bar>)
           in if k = 1 then ds @ CHR ''e'' # es
              else take 1 ds @ CHR ''.'' # drop 1 ds @ CHR ''e'' # es)"

fun js_number_to_string :: "jsnum \<Rightarrow> string" where
  "js_number_to_string NaN = ''NaN''"
| "js_number_to_string PosInf = ''Infinity''"
| "js_number_to_string NegInf = ''-Infinity''"
| "js_number_to_string (Num x) =
     (if x = 0 then ''0'' else if x < 0 then CHR ''-'' # to_string_pos (- x) else to_string_pos x)"

text \<open>
  \<open>x.toFixed(2)\<close> for finite \<open>x\<close> (ECMAScript 21.1.3.3): below \<open>10^21\<close> the
  integer \<open>n\<close> nearest to \<open>100 x\<close> (the larger one on a tie), its digits padded to
  at least three and split before the last two; from \<open>10^21\<close> on,
  \<open>ToString(x)\<close>.
\<close>

definition fixed2_digits :: "nat \<Rightarrow> string" where
  "fixed2_digits n =
     (let m = string_of_nat n;
          m' = (if length m \<le> 2 then replicate (3 - length m) CHR ''0'' @ m else m)
      in take (length m' - 2) m' @ CHR ''.'' # drop (length m' - 2) m')"

definition round_half_up2 :: "rat \<Rightarrow> nat" where
  "round_half_up2 x = nat \<lfloor>x * 100 + 1 / 2\<rfloor>"

definition to_fixed2_nonneg :: "rat \<Rightarrow> string" where
  "to_fixed2_nonneg x =
     (if 10 ^ 21 \<le> x then js_number_to_string (Num x) else fixed2_digits (round_half_up2 x))"

definition to_fixed2 :: "rat \<Rightarrow> string" where
  "to_fixed2 x = (if x < 0 then CHR ''-'' # to_fixed2_nonneg (- x) else to_fixed2_nonneg x)"

text \<open>\<open>toFixed(2)\<close> on any Number: a value that is not finite is written by \<open>ToString\<close>.\<close>

fun js_to_fixed2 :: "jsnum \<Rightarrow> string" where
  "js_to_fixed2 (Num x) = to_fixed2 x"
| "js_to_fixed2 v = js_number_to_string v"

subsection \<open>\<open>Number(string)\<close>: StringToNumber\<close>

definition trim_js :: "string \<Rightarrow> string" where
  "trim_js s = rev (dropWhile is_js_space (rev (dropWhile is_js_space s)))"

text \<open>The value of a digit of base 2, 8 or 16, if the character is one.\<close>

definition radix_digit :: "nat \<Rightarrow> char \<Rightarrow> nat option" where
  "radix_digit b c =
     (let n = (of_char c :: nat);
          v = (if 48 \<le> n \<and> n \<le> 57 then Some (n - 48)
               else if 97 \<le> n \<and> n \<le> 102 then Some (n - 87)
               else if 65 \<le> n \<and> n \<le> 70 then Some (n - 55) else None)
      in case v of Some d \<Rightarrow> if d < b then Some d else None | None \<Rightarrow> None)"

fun radix_value :: "nat \<Rightarrow> nat \<Rightarrow> string \<Rightarrow> nat option" where
  "radix_value b acc [] = Some acc"
| "radix_value b acc (c # cs) =
     (case radix_digit b c of None \<Rightarrow> None | Some d \<Rightarrow> radix_value b (b * acc + d) cs)"

text \<open>A NonDecimalIntegerLiteral: \<open>0x\<close>, \<open>0o\<close> or \<open>0b\<close> (either case) and at least one digit.\<close>

definition non_decimal :: "string \<Rightarrow> jsnum option" where
  "non_decimal t =
     (case t of
        z # c # ds \<Rightarrow>
          if z = CHR ''0'' \<and> ds \<noteq> [] then
            (let b = (if c = CHR ''x'' \<or> c = CHR ''X'' then 16
                      else if c = CHR ''o'' \<or> c = CHR ''O'' then 8
                      else if c = CHR ''b'' \<or> c = CHR ''B'' then 2 else 0)
             in if b = 0 then None else map_option (\<lambda>n. Num (of_nat n)) (radix_value b 0 ds))
          else None
      | _ \<Rightarrow> None)"

text \<open>
  StringToNumber (ECMAScript 7.1.4.1.1): white space around is ignored, the empty
  string is 0, the whole rest must be a StrNumericLiteral, anything else is NaN.
\<close>

definition string_to_number :: "string \<Rightarrow> jsnum" where
  "string_to_number s =
     (let t = trim_js s
      in if t = [] then Num 0
         else case non_decimal t of
                Some v \<Rightarrow> v
              | None \<Rightarrow> (case str_decimal t of Some (v, []) \<Rightarrow> v | _ \<Rightarrow> NaN))"

lemma or_zero_Num [simp]: "or_zero (Num x) = Num x"
  by (simp add: or_zero_def)

subsection \<open>Digit strings: printing and reading back\<close>

lemma digits_of_nat_less: "d \<in> set (digits_of_nat n) \<Longrightarrow> d < 10"
proof (induction n rule: digits_of_nat.induct)
  case (1 n)
  then show ?case
    by (cases "n < 10") (auto simp: digits_of_nat.simps [of n])
qed

lemma digits_of_nat_nonempty [simp]: "digits_of_nat n \<noteq> []"
  by (subst digits_of_nat.simps) simp

lemma string_of_nat_digits [simp]: "\<forall>c\<in>set (string_of_nat n). is_digit c"
  by (auto simp: string_of_nat_def dest: digits_of_nat_less)

lemma string_of_nat_nonempty [simp]: "string_of_nat n \<noteq> []"
  by (simp add: string_of_nat_def)

lemma digits_value_append [js_simps]:
  "digits_value (xs @ ys) = digits_value xs * 10 ^ length ys + digits_value ys"
proof (induction ys rule: rev_induct)
  case Nil
  then show ?case by (simp add: digits_value_def)
next
  case (snoc y ys)
  then show ?case
    by (simp add: digits_value_def algebra_simps flip: append_assoc)
qed

lemma digits_value_string_of_nat [simp]: "digits_value (string_of_nat n) = n"
proof (induction n rule: digits_of_nat.induct)
  case (1 n)
  show ?case
  proof (cases "n < 10")
    case True
    then show ?thesis
      by (simp add: string_of_nat_def digits_of_nat.simps [of n] digits_value_def)
  next
    case False
    then have "string_of_nat n = string_of_nat (n div 10) @ [digit_char (n mod 10)]"
      by (simp add: string_of_nat_def digits_of_nat.simps [of n])
    with False "1.IH" show ?thesis
      by (simp add: digits_value_append digits_value_def)
  qed
qed

text \<open>A digit string never begins like \<open>Infinity\<close>.\<close>

lemma digits_not_Infinity:
  "s = c # t \<Longrightarrow> is_digit c \<Longrightarrow> take 8 s \<noteq> ''Infinity''"
  by (auto simp: is_digit_def)

lemma exponent_part_plain [simp]: "exponent_part [] = (0, [])"
  by (simp add: exponent_part_def)

text \<open>Reading an unsigned decimal \<open>ip.fp\<close> with nothing after it.\<close>

lemma str_unsigned_point:
  assumes "\<forall>c\<in>set ip. is_digit c" and "\<forall>c\<in>set fp. is_digit c" and "ip \<noteq> []"
  shows "str_unsigned (ip @ CHR ''.'' # fp) =
           Some (Num (of_nat (digits_value (ip @ fp)) / 10 ^ length fp), [])"
proof -
  obtain c t where ip: "ip = c # t" using \<open>ip \<noteq> []\<close> by (cases ip) auto
  with assms have "take 8 (ip @ CHR ''.'' # fp) \<noteq> ''Infinity''"
    by (intro digits_not_Infinity [of _ c "t @ CHR ''.'' # fp"]) auto
  with assms show ?thesis
    by (simp add: str_unsigned_def js_simps pow10_def)
qed

lemma str_unsigned_digits:
  assumes "\<forall>c\<in>set ds. is_digit c" and "ds \<noteq> []"
  shows "str_unsigned ds = Some (Num (of_nat (digits_value ds)), [])"
proof -
  obtain c t where ds: "ds = c # t" using \<open>ds \<noteq> []\<close> by (cases ds) auto
  with assms have "take 8 ds \<noteq> ''Infinity''"
    by (intro digits_not_Infinity [of _ c t]) auto
  with assms show ?thesis
    by (simp add: str_unsigned_def pow10_def)
qed

lemma parse_float_digits_start:
  assumes "s = c # t" and "is_digit c"
  shows "parse_float s = (case str_unsigned s of None \<Rightarrow> NaN | Some (v, _) \<Rightarrow> v)"
proof -
  have "\<not> is_js_space c" using \<open>is_digit c\<close> by (auto simp: is_digit_def is_js_space_def)
  moreover have "c \<noteq> CHR ''+'' \<and> c \<noteq> CHR ''-''" using \<open>is_digit c\<close> by (auto simp: is_digit_def)
  ultimately show ?thesis
    using assms by (simp add: parse_float_def str_decimal_def)
qed

text \<open>\<open>parseFloat\<close> reads back the decimal digits \<open>Number::toString\<close> writes for a natural number.\<close>

lemma parse_float_string_of_nat [simp]: "parse_float (string_of_nat n) = Num (of_nat n)"
proof -
  obtain c t where st: "string_of_nat n = c # t"
    by (cases "string_of_nat n") auto
  then have "is_digit c" using string_of_nat_digits [of n] by simp
  with st have "parse_float (string_of_nat n) =
      (case str_unsigned (string_of_nat n) of None \<Rightarrow> NaN | Some (v, _) \<Rightarrow> v)"
    by (intro parse_float_digits_start) auto
  then show ?thesis by (simp add: str_unsigned_digits)
qed

lemma parse_float_neg_string_of_nat: "parse_float (CHR ''-'' # string_of_nat n) = Num (- of_nat n)"
proof -
  have "\<not> is_js_space CHR ''-''" by (simp add: is_js_space_def)
  moreover have "str_unsigned (string_of_nat n) = Some (Num (of_nat n), [])"
    using str_unsigned_digits [of "string_of_nat n"] by simp
  ultimately show ?thesis by (simp add: parse_float_def str_decimal_def)
qed

text \<open>Only a literal spelling \<open>Infinity\<close> reads as a non-finite value.\<close>

lemma str_unsigned_finite:
  "str_unsigned (c # t) = Some (v, r) \<Longrightarrow> c \<noteq> CHR ''I'' \<Longrightarrow> \<exists>x. v = Num x"
  by (auto simp: str_unsigned_def Let_def split: if_splits prod.splits list.splits)

lemma parse_float_Nil [simp]: "parse_float [] = NaN"
  by (simp add: parse_float_def str_decimal_def)

lemma pow10_nonneg [simp]: "0 \<le> pow10 e"
  by (simp add: pow10_def)

lemma str_unsigned_nonneg:
  assumes "str_unsigned (c # t) = Some (v, r)" and "c \<noteq> CHR ''I''"
  shows "\<exists>x. v = Num x \<and> 0 \<le> x"
proof -
  have "take 8 (c # t) \<noteq> ''Infinity''" using assms(2) by auto
  with assms(1) show ?thesis
    unfolding str_unsigned_def Let_def
    by (auto split: prod.splits list.splits if_splits)
qed

end
