(* ===== verification/Currency.thy ===== *)
theory Currency
  imports JsNumber
begin

text \<open>
  \<open>formatCurrency\<close> and \<open>parseCurrency\<close> of src/script.js (lines 56--66): the
  rupee display of a Number with two decimals, and the permissive reading of such
  a display back into a Number.  The rupee sign U+20B9 is written by its UTF-8
  bytes; none of them is a digit or a dot, as none of its UTF-16 code units is,
  so \<open>parseCurrency\<close> strips it either way.  The lemmas: every non-finite value
  shows as the zero display; reading a display back yields the value rounded to
  cents for \<open>0 \<le> x < 10^21\<close>; the sign of a negative value and the
  exponent notation of values from \<open>10^21\<close> on are lost.
\<close>

definition rupee_sign :: string where
  "rupee_sign = [CHR 0xE2, CHR 0x82, CHR 0xB9]"

definition format_currency :: "jsnum \<Rightarrow> string" where
  "format_currency v =
     (if is_nan v \<or> \<not> is_finite v then rupee_sign @ ''0.00'' else rupee_sign @ js_to_fixed2 v)"

definition parse_currency :: "string \<Rightarrow> jsnum" where
  "parse_currency text =
     (if text = [] then Num 0
      else
        let cleaned = filter (\<lambda>c. is_digit c \<or> c = CHR ''.'') text;
            num = parse_float cleaned
        in if is_nan num then Num 0 else num)"

text \<open>The amount in cents that \<open>toFixed(2)\<close> displays for \<open>0 \<le> x < 10^21\<close>.\<close>

definition cents :: "rat \<Rightarrow> rat" where
  "cents x = of_nat (round_half_up2 x) / 100"

subsection \<open>The shape of a two-decimal display\<close>

lemma rupee_sign_nonempty [simp]: "rupee_sign \<noteq> []"
  by (simp add: rupee_sign_def)

lemma rupee_sign_stripped [simp]:
  "filter (\<lambda>c. is_digit c \<or> c = CHR ''.'') rupee_sign = []"
  by (simp add: rupee_sign_def is_digit_def)

lemma digits_value_zeros [simp]:
  "digits_value (replicate k CHR ''0'' @ ds) = digits_value ds"
  by (induction k) (simp_all add: digits_value_def)

text \<open>
  \<open>toFixed(2)\<close> below \<open>10^21\<close> writes an integer part of at least one digit, a
  dot and two digits, whose digits together read as the rounded cents.
\<close>

lemma fixed2_digits_shape:
  obtains a b where "fixed2_digits n = a @ CHR ''.'' # b" and "a \<noteq> []" and "length b = 2"
    and "\<forall>c\<in>set a. is_digit c" and "\<forall>c\<in>set b. is_digit c"
    and "digits_value (a @ b) = n"
proof -
  let ?m = "string_of_nat n"
  define m' where "m' = (if length ?m \<le> 2 then replicate (3 - length ?m) CHR ''0'' @ ?m else ?m)"
  have len: "3 \<le> length m'"
    using string_of_nat_nonempty [of n] by (auto simp: m'_def)
  have dig: "\<forall>c\<in>set m'. is_digit c"
    using string_of_nat_digits [of n] by (auto simp: m'_def)
  have val: "digits_value m' = n"
    by (simp add: m'_def)
  have "fixed2_digits n = take (length m' - 2) m' @ CHR ''.'' # drop (length m' - 2) m'"
    by (simp add: fixed2_digits_def m'_def Let_def)
  moreover have "take (length m' - 2) m' \<noteq> []" using len by (cases m') auto
  moreover have "length (drop (length m' - 2) m') = 2" using len by simp
  moreover have "\<forall>c\<in>set (take (length m' - 2) m'). is_digit c"
    using dig by (auto dest: in_set_takeD)
  moreover have "\<forall>c\<in>set (drop (length m' - 2) m'). is_digit c"
    using dig by (auto dest: in_set_dropD)
  moreover have "digits_value (take (length m' - 2) m' @ drop (length m' - 2) m') = n"
    using val by simp
  ultimately show ?thesis by (rule that)
qed

lemma parse_float_fixed2_digits: "parse_float (fixed2_digits n) = Num (of_nat n / 100)"
proof -
  obtain a b where fd: "fixed2_digits n = a @ CHR ''.'' # b" and a: "a \<noteq> []"
    and lb: "length b = 2" and da: "\<forall>c\<in>set a. is_digit c" and db: "\<forall>c\<in>set b. is_digit c"
    and v: "digits_value (a @ b) = n"
    by (rule fixed2_digits_shape)
  obtain c t where at: "a = c # t" using a by (cases a) auto
  have "parse_float (a @ CHR ''.'' # b) =
      (case str_unsigned (a @ CHR ''.'' # b) of None \<Rightarrow> NaN | Some (v, _) \<Rightarrow> v)"
    using at da by (intro parse_float_digits_start [of _ c "t @ CHR ''.'' # b"]) auto
  also have "\<dots> = Num (of_nat n / 100)"
    using str_unsigned_point [OF da db a] v lb by simp
  finally show ?thesis using fd by simp
qed

lemma filter_fixed2_digits [simp]:
  "filter (\<lambda>c. is_digit c \<or> c = CHR ''.'') (fixed2_digits n) = fixed2_digits n"
proof -
  obtain a b where "fixed2_digits n = a @ CHR ''.'' # b"
    and "\<forall>c\<in>set a. is_digit c" and "\<forall>c\<in>set b. is_digit c"
    by (rule fixed2_digits_shape)
  then show ?thesis by simp
qed

lemma format_currency_Num [simp]: "format_currency (Num x) = rupee_sign @ to_fixed2 x"
  by (simp add: format_currency_def)

lemma format_currency_nonneg:
  "0 \<le> x \<Longrightarrow> x < 10 ^ 21 \<Longrightarrow> format_currency (Num x) = rupee_sign @ fixed2_digits (round_half_up2 x)"
  by (simp add: to_fixed2_def to_fixed2_nonneg_def)

text \<open>Reading back any display \<open>toFixed(2)\<close> writes for a value below \<open>10^21\<close>.\<close>

lemma parse_currency_fixed2:
  "parse_currency (rupee_sign @ fixed2_digits n) = Num (of_nat n / 100)"
  by (simp add: parse_currency_def parse_float_fixed2_digits)

lemma string_of_nat_small [simp]: "n < 10 \<Longrightarrow> string_of_nat n = [digit_char n]"
  by (simp add: string_of_nat_def digits_of_nat.simps [of n])

lemma to_fixed2_zero [simp]: "to_fixed2 0 = ''0.00''"
  by (simp add: to_fixed2_def to_fixed2_nonneg_def round_half_up2_def fixed2_digits_def)

lemma parse_currency_format_neg:
  assumes "x < 0" and "- x < 10 ^ 21"
  shows "parse_currency (format_currency (Num x)) = Num (cents (- x))"
proof -
  have "format_currency (Num x) = rupee_sign @ CHR ''-'' # fixed2_digits (round_half_up2 (- x))"
    using assms by (simp add: to_fixed2_def to_fixed2_nonneg_def)
  moreover have "filter (\<lambda>c. is_digit c \<or> c = CHR ''.'') (rupee_sign @ CHR ''-'' # s) =
      filter (\<lambda>c. is_digit c \<or> c = CHR ''.'') s" for s
    by (simp add: js_simps)
  ultimately show ?thesis
    by (simp add: parse_currency_def parse_float_fixed2_digits cents_def)
qed

lemma round_half_up2_of_int: "round_half_up2 (of_int k) = nat (100 * k)"
proof -
  have "\<lfloor>(of_int k :: rat) * 100 + 1 / 2\<rfloor> = \<lfloor>1 / 2 + of_int (100 * k) :: rat\<rfloor>"
    by (simp add: algebra_simps)
  also have "\<dots> = \<lfloor>1 / 2 :: rat\<rfloor> + 100 * k" by (simp only: floor_add_int)
  also have "\<dots> = 100 * k" by (simp add: floor_eq_iff)
  finally show ?thesis by (simp add: round_half_up2_def)
qed
lemma round_half_up2_numeral [simp]: "round_half_up2 (numeral k) = 100 * numeral k"
  using round_half_up2_of_int [of "numeral k"] by simp

subsection \<open>Properties of the currency display\<close>

text \<open>
  C16: \<open>formatCurrency\<close> shows NaN, Infinity and -Infinity exactly as it shows
  zero, \<open>\<rupee>0.00\<close>: its guard keeps an invalid amount from the display, where
  \<open>toFixed\<close> alone would write \<open>NaN\<close> or \<open>Infinity\<close>.
\<close>

theorem format_currency_nonfinite:
  "format_currency NaN = format_currency (Num 0) \<and>
   format_currency PosInf = format_currency (Num 0) \<and>
   format_currency NegInf = format_currency (Num 0)"
  by (simp add: format_currency_def)

text \<open>
  C7: for every finite \<open>0 \<le> x < 10^21\<close>, \<open>parseCurrency(formatCurrency(x))\<close>
  is \<open>x\<close> rounded to cents (half a cent rounds up, as \<open>toFixed\<close> does).
\<close>

theorem parse_format_roundtrip:
  assumes "0 \<le> x" and "x < 10 ^ 21"
  shows "parse_currency (format_currency (Num x)) = Num (cents x)"
  by (simp only: format_currency_nonneg [OF assms] parse_currency_fixed2 cents_def)

theorem parse_format_roundtrip_witness:
  "0 \<le> (1005 / 1000 :: rat) \<and> (1005 / 1000 :: rat) < 10 ^ 21 \<and>
   parse_currency (format_currency (Num (1005 / 1000))) = Num (101 / 100)"
proof -
  have "parse_currency (format_currency (Num (1005 / 1000))) = Num (cents (1005 / 1000))"
    by (rule parse_format_roundtrip) simp_all
  then show ?thesis by (simp add: cents_def round_half_up2_def)
qed

text \<open>
  C18: the round trip fails from \<open>10^21\<close> on: \<open>toFixed\<close> switches to exponent
  notation, \<open>\<rupee>1e+21\<close>, and \<open>parseCurrency\<close> strips \<open>e\<close> and \<open>+\<close>, reading 121.
\<close>

theorem format_currency_exponent_misread:
  "format_currency (Num (10 ^ 21)) = rupee_sign @ ''1e+21'' \<and>
   parse_currency (format_currency (Num (10 ^ 21))) = Num 121"
proof -
  have fx: "to_fixed2 (10 ^ 21) = ''1e+21''"
    by (simp add: to_fixed2_def to_fixed2_nonneg_def to_string_pos_def dec_exp_def
        strip_zeros.simps string_of_nat_def digits_of_nat.simps)
  have "parse_float ''121'' = Num 121"
    using parse_float_string_of_nat [of 121]
    by (simp add: string_of_nat_def digits_of_nat.simps)
  with fx show ?thesis
    by (simp add: parse_currency_def js_simps)
qed

text \<open>Only digits and dots: what \<open>parseCurrency\<close> hands to \<open>parseFloat\<close>.\<close>

lemma parse_float_digits_dots:
  assumes "\<forall>c\<in>set f. is_digit c \<or> c = CHR ''.''"
  shows "parse_float f = NaN \<or> (\<exists>x. parse_float f = Num x \<and> 0 \<le> x)"
proof (cases f)
  case Nil
  then show ?thesis by (simp add: parse_float_def str_decimal_def)
next
  case (Cons c t)
  then have c: "is_digit c \<or> c = CHR ''.''" using assms by simp
  then have "\<not> is_js_space c" "c \<noteq> CHR ''+''" "c \<noteq> CHR ''-''" "c \<noteq> CHR ''I''"
    by (auto simp: is_js_space_def is_digit_def)
  then have "parse_float f = (case str_unsigned (c # t) of None \<Rightarrow> NaN | Some (v, _) \<Rightarrow> v)"
    using Cons by (simp add: parse_float_def str_decimal_def)
  with \<open>c \<noteq> CHR ''I''\<close> show ?thesis
    using str_unsigned_nonneg [of c t] by (auto split: option.splits)
qed

lemma parse_currency_cases:
  "s = [] \<or> parse_currency s =
     (let num = parse_float (filter (\<lambda>c. is_digit c \<or> c = CHR ''.'') s) in if is_nan num then Num 0 else num)"
  by (simp add: parse_currency_def)

text \<open>
  \<open>parseCurrency\<close> always returns a finite, non-negative Number: the
  characters it keeps are digits and dots, so no sign, no exponent and no
  \<open>Infinity\<close> survive, and NaN becomes 0.
\<close>

lemma parse_currency_nonneg: "\<exists>x. parse_currency s = Num x \<and> 0 \<le> x"
  using parse_float_digits_dots [of "filter (\<lambda>c. is_digit c \<or> c = CHR ''.'') s"]
  by (auto simp: parse_currency_def Let_def)

end
