(* ===== verification/Cart.thy ===== *)
theory Cart
  imports Currency
begin

text \<open>
  The cart of src/script.js: the rows of \<open>itemsBody\<close> (one \<open>tr\<close> per line item,
  lines 68--107), their listeners (109--125), \<open>updateTotals\<close> (127--147), the
  static product catalogue (29--54) with \<open>renderCatalog\<close> (151--182) and the
  catalogue click handler (295--304).  A row is a record of the values of its
  three inputs and the text of its line-total cell; its identity as a DOM node is
  a handle drawn from a counter.  The inputs hold what the browser keeps after
  value sanitization (HTML 4.10.5): a text input drops line breaks, a number input
  keeps only a valid floating-point number and is empty otherwise.
\<close>

record row =
  row_id :: row_handle
  desc_value :: string
  qty_value :: string
  price_value :: string
  line_total_text :: string

record cart =
  rows :: "row list"
  next_row :: row_handle
  subtotal_text :: string
  grand_total_text :: string

subsection \<open>Input values as the browser keeps them\<close>

definition text_value :: "string \<Rightarrow> string" where
  "text_value s = filter (\<lambda>c. c \<noteq> CHR 0x0A \<and> c \<noteq> CHR 0x0D) s"

text \<open>
  A valid floating-point number (HTML 2.3.4.3): an optional \<open>-\<close>, digits, a
  dot followed by digits, or both, and an optional exponent \<open>e\<close>/\<open>E\<close> with an
  optional sign and at least one digit.
\<close>

definition valid_exponent :: "string \<Rightarrow> bool" where
  "valid_exponent r =
     (case r of
        [] \<Rightarrow> True
      | c # t \<Rightarrow>
          (c = CHR ''e'' \<or> c = CHR ''E'') \<and>
          (let u = (case t of d # u' \<Rightarrow> if d = CHR ''+'' \<or> d = CHR ''-'' then u' else t | [] \<Rightarrow> [])
           in u \<noteq> [] \<and> (\<forall>x\<in>set u. is_digit x)))"

definition valid_unsigned :: "string \<Rightarrow> bool" where
  "valid_unsigned t =
     (let ip = takeWhile is_digit t;
          r1 = dropWhile is_digit t
      in case r1 of
           c # u \<Rightarrow>
             if c = CHR ''.'' then takeWhile is_digit u \<noteq> [] \<and> valid_exponent (dropWhile is_digit u)
             else ip \<noteq> [] \<and> valid_exponent r1
         | [] \<Rightarrow> ip \<noteq> [])"

definition valid_float :: "string \<Rightarrow> bool" where
  "valid_float s =
     (case s of
        c # u \<Rightarrow> if c = CHR ''-'' then valid_unsigned u else valid_unsigned s
      | [] \<Rightarrow> False)"

definition number_value :: "string \<Rightarrow> string" where
  "number_value s = (if valid_float s then s else [])"

subsection \<open>Totals: \<open>updateTotals\<close>\<close>

text \<open>\<open>(parseFloat(qtyInput.value) || 0) * (parseFloat(priceInput.value) || 0)\<close>\<close>

definition line_total :: "row \<Rightarrow> jsnum" where
  "line_total r = js_mul (or_zero (parse_float (qty_value r))) (or_zero (parse_float (price_value r)))"

text \<open>
  The \<open>forEach\<close> loop over the rows: each row's line-total cell is written and
  the line total added to the running subtotal.
\<close>

fun total_rows :: "jsnum \<Rightarrow> row list \<Rightarrow> row list \<times> jsnum" where
  "total_rows acc [] = ([], acc)"
| "total_rows acc (r # rs) =
     (let lt = line_total r;
          (rs', s) = total_rows (js_add acc lt) rs
      in (r\<lparr>line_total_text := format_currency lt\<rparr> # rs', s))"

text \<open>\<open>const grandTotal = subtotal\<close>: the seam kept for surcharges.\<close>

definition grand_total_of :: "jsnum \<Rightarrow> jsnum" where
  "grand_total_of subtotal = subtotal"

definition update_totals :: "'a cart_scheme \<Rightarrow> 'a cart_scheme" where
  "update_totals c =
     (let (rs, subtotal) = total_rows (Num 0) (rows c);
          grand = grand_total_of subtotal
      in c\<lparr>rows := rs, subtotal_text := format_currency subtotal,
           grand_total_text := format_currency grand\<rparr>)"

subsection \<open>Rows: \<open>createItemRow\<close> and the row listeners\<close>

text \<open>
  The row the template of \<open>createItemRow\<close> builds: \<open>value="${quantity}"\<close>
  converts the Number with \<open>ToString\<close> and the number input sanitizes it; the
  line-total cell starts as \<open>\<rupee>0.00\<close>.
\<close>

definition new_row :: "row_handle \<Rightarrow> string \<Rightarrow> jsnum \<Rightarrow> jsnum \<Rightarrow> row" where
  "new_row h description quantity unit_price =
     \<lparr>row_id = h, desc_value = text_value description,
      qty_value = number_value (js_number_to_string quantity),
      price_value = number_value (js_number_to_string unit_price),
      line_total_text = rupee_sign @ ''0.00''\<rparr>"

definition create_item_row :: "string \<Rightarrow> jsnum \<Rightarrow> jsnum \<Rightarrow> 'a cart_scheme \<Rightarrow> 'a cart_scheme" where
  "create_item_row description quantity unit_price c =
     update_totals
       (c\<lparr>rows := rows c @ [new_row (next_row c) description quantity unit_price],
          next_row := Suc (next_row c)\<rparr>)"

text \<open>\<open>createItemRow()\<close> with its defaults \<open>("", 1, 0)\<close>.\<close>

definition create_blank_row :: "'a cart_scheme \<Rightarrow> 'a cart_scheme" where
  "create_blank_row c = create_item_row [] (Num 1) (Num 0) c"

definition row_ids :: "'a cart_scheme \<Rightarrow> row_handle set" where
  "row_ids c = row_id ` set (rows c)"

text \<open>
  Typing into the quantity or price input of the row \<open>h\<close>: the input keeps the
  sanitized value and its \<open>input\<close> listener \<open>onChange\<close> runs \<open>updateTotals\<close>.
\<close>

definition edit_qty :: "row_handle \<Rightarrow> string \<Rightarrow> 'a cart_scheme \<Rightarrow> 'a cart_scheme" where
  "edit_qty h s c =
     update_totals (c\<lparr>rows := map (\<lambda>r. if row_id r = h then r\<lparr>qty_value := number_value s\<rparr> else r) (rows c)\<rparr>)"

definition edit_price :: "row_handle \<Rightarrow> string \<Rightarrow> 'a cart_scheme \<Rightarrow> 'a cart_scheme" where
  "edit_price h s c =
     update_totals (c\<lparr>rows := map (\<lambda>r. if row_id r = h then r\<lparr>price_value := number_value s\<rparr> else r) (rows c)\<rparr>)"

text \<open>The description input has no listener: editing it recomputes nothing.\<close>

definition edit_desc :: "row_handle \<Rightarrow> string \<Rightarrow> 'a cart_scheme \<Rightarrow> 'a cart_scheme" where
  "edit_desc h s c =
     c\<lparr>rows := map (\<lambda>r. if row_id r = h then r\<lparr>desc_value := text_value s\<rparr> else r) (rows c)\<rparr>"

text \<open>The remove button's listener: \<open>row.remove(); updateTotals();\<close>\<close>

definition remove_row :: "row_handle \<Rightarrow> 'a cart_scheme \<Rightarrow> 'a cart_scheme" where
  "remove_row h c = update_totals (c\<lparr>rows := filter (\<lambda>r. row_id r \<noteq> h) (rows c)\<rparr>)"

subsection \<open>The product catalogue\<close>

record product =
  prod_id :: string
  prod_name :: string
  prod_description :: string
  prod_price :: jsnum
  prod_image :: string
  prod_tag :: string

definition products :: "product list" where
  "products =
     [\<lparr>prod_id = ''bed'', prod_name = ''King size bed'',
       prod_description = ''Solid wood bed with storage.'', prod_price = Num 25000,
       prod_image = ''https://source.unsplash.com/featured/?bed,furniture'', prod_tag = ''Bed''\<rparr>,
      \<lparr>prod_id = ''wooden-sofa'', prod_name = ''Wooden sofa'',
       prod_description = ''Three seater classic wooden sofa.'', prod_price = Num 18000,
       prod_image = ''https://source.unsplash.com/featured/?wooden,sofa'', prod_tag = ''Wooden sofa''\<rparr>,
      \<lparr>prod_id = ''cushion-sofa'', prod_name = ''Cushion sofa'',
       prod_description = ''Soft cushion sofa for living room.'', prod_price = Num 22000,
       prod_image = ''https://source.unsplash.com/featured/?cushion,sofa'', prod_tag = ''Cushion sofa''\<rparr>]"

text \<open>
  What one card of \<open>renderCatalog\<close> shows: image, name, description, price
  display, tag, and the \<open>data-product-id\<close> of its button.
\<close>

record card =
  card_image :: string
  card_name :: string
  card_desc :: string
  card_price :: string
  card_tag :: string
  card_button_id :: string

definition render_catalog :: "card list" where
  "render_catalog =
     map (\<lambda>p. \<lparr>card_image = prod_image p, card_name = prod_name p, card_desc = prod_description p,
               card_price = format_currency (prod_price p), card_tag = prod_tag p,
               card_button_id = prod_id p\<rparr>) products"

text \<open>
  The catalogue click handler: \<open>None\<close> is a click outside any add button;
  otherwise the button's \<open>data-product-id\<close>, looked up with \<open>products.find\<close>.
\<close>

definition find_product :: "string \<Rightarrow> product option" where
  "find_product pid = find (\<lambda>p. prod_id p = pid) products"

definition catalog_click :: "string option \<Rightarrow> 'a cart_scheme \<Rightarrow> 'a cart_scheme" where
  "catalog_click target c =
     (case target of
        None \<Rightarrow> c
      | Some pid \<Rightarrow>
          (case find_product pid of
             None \<Rightarrow> c
           | Some p \<Rightarrow> create_item_row (prod_name p) (Num 1) (prod_price p) c))"

subsection \<open>Reference definitions of the totals\<close>

text \<open>
  The spec's totals: the subtotal is the sum of the line totals in row order, and
  a field that does not parse counts as zero.  \<open>field_amount\<close> is the exact value
  a quantity or price field stands for.
\<close>

definition cart_subtotal :: "row list \<Rightarrow> jsnum" where
  "cart_subtotal rs = foldl (\<lambda>acc r. js_add acc (line_total r)) (Num 0) rs"

definition field_amount :: "string \<Rightarrow> rat" where
  "field_amount s = (case parse_float s of Num x \<Rightarrow> x | _ \<Rightarrow> 0)"

definition line_amount :: "row \<Rightarrow> rat" where
  "line_amount r = field_amount (qty_value r) * field_amount (price_value r)"

text \<open>What a number input can hold: a valid floating-point number or nothing.\<close>

definition number_ok :: "string \<Rightarrow> bool" where
  "number_ok s \<longleftrightarrow> s = [] \<or> valid_float s"

definition row_ok :: "row \<Rightarrow> bool" where
  "row_ok r \<longleftrightarrow> number_ok (qty_value r) \<and> number_ok (price_value r)"

text \<open>
  The cart's invariant: row handles are distinct and below the counter, so a new
  row's handle is fresh, and every number input holds a sanitized value.
\<close>

definition cart_ok :: "'a cart_scheme \<Rightarrow> bool" where
  "cart_ok c \<longleftrightarrow>
     distinct (map row_id (rows c)) \<and> (\<forall>r\<in>set (rows c). row_id r < next_row c \<and> row_ok r)"

text \<open>The displays agree with the rows: no stale total anywhere on the page.\<close>

definition totals_fresh :: "'a cart_scheme \<Rightarrow> bool" where
  "totals_fresh c \<longleftrightarrow>
     (\<forall>r\<in>set (rows c). line_total_text r = format_currency (line_total r)) \<and>
     subtotal_text c = format_currency (cart_subtotal (rows c)) \<and>
     grand_total_text c = format_currency (grand_total_of (cart_subtotal (rows c)))"

subsection \<open>updateTotals\<close>

lemma line_total_stamp [simp]: "line_total (r\<lparr>line_total_text := x\<rparr>) = line_total r"
  by (simp add: line_total_def)

lemma total_rows_eq:
  "total_rows acc rs =
     (map (\<lambda>r. r\<lparr>line_total_text := format_currency (line_total r)\<rparr>) rs,
      foldl (\<lambda>a r. js_add a (line_total r)) acc rs)"
  by (induction rs arbitrary: acc) (simp_all add: Let_def)

lemma update_totals_fields [cart_simps]:
  "rows (update_totals c) = map (\<lambda>r. r\<lparr>line_total_text := format_currency (line_total r)\<rparr>) (rows c)"
  "subtotal_text (update_totals c) = format_currency (cart_subtotal (rows c))"
  "grand_total_text (update_totals c) = format_currency (grand_total_of (cart_subtotal (rows c)))"
  "next_row (update_totals c) = next_row c"
  "cart.more (update_totals c) = cart.more c"
  by (simp_all add: update_totals_def total_rows_eq cart_subtotal_def)

lemma update_totals_eq:
  "update_totals c =
     c\<lparr>rows := map (\<lambda>r. r\<lparr>line_total_text := format_currency (line_total r)\<rparr>) (rows c),
       subtotal_text := format_currency (cart_subtotal (rows c)),
       grand_total_text := format_currency (grand_total_of (cart_subtotal (rows c)))\<rparr>"
  by (simp add: update_totals_def total_rows_eq cart_subtotal_def)

lemma cart_subtotal_stamp [simp]:
  "cart_subtotal (map (\<lambda>r. r\<lparr>line_total_text := f r\<rparr>) rs) = cart_subtotal rs"
  by (simp add: cart_subtotal_def foldl_map)

lemma update_totals_fresh: "totals_fresh (update_totals c)"
  by (simp add: totals_fresh_def cart_simps)

subsection \<open>Sanitized inputs and the exact subtotal\<close>

lemma valid_unsigned_start:
  "valid_unsigned t \<Longrightarrow> \<exists>c u. t = c # u \<and> (is_digit c \<or> c = CHR ''.'')"
  by (cases t) (auto simp: valid_unsigned_def Let_def split: if_splits list.splits)

lemma valid_float_start:
  "valid_float s \<Longrightarrow> \<exists>c t. s = c # t \<and> (is_digit c \<or> c = CHR ''.'' \<or>
      (c = CHR ''-'' \<and> (\<exists>d u. t = d # u \<and> (is_digit d \<or> d = CHR ''.''))))"
  by (cases s) (auto simp: valid_float_def split: if_splits dest: valid_unsigned_start)

lemma parse_float_valid:
  assumes "valid_float s"
  shows "parse_float s = NaN \<or> (\<exists>x. parse_float s = Num x)"
proof -
  obtain c t where s: "s = c # t" and start: "is_digit c \<or> c = CHR ''.'' \<or>
      (c = CHR ''-'' \<and> (\<exists>d u. t = d # u \<and> (is_digit d \<or> d = CHR ''.'')))"
    using valid_float_start [OF assms] by blast
  have nsp: "\<not> is_js_space c"
    using start by (auto simp: is_digit_def is_js_space_def)
  show ?thesis
  proof (cases "c = CHR ''-''")
    case True
    with start obtain d u where t: "t = d # u" and "d \<noteq> CHR ''I''"
      by (auto simp: js_simps)
    then have "str_unsigned t = None \<or> (\<exists>x r. str_unsigned t = Some (Num x, r))"
      using str_unsigned_finite [of d u] by (cases "str_unsigned t") fastforce+
    with True nsp s show ?thesis
      by (auto simp: parse_float_def str_decimal_def)
  next
    case False
    with start have "c \<noteq> CHR ''+''" and "c \<noteq> CHR ''I''" by auto
    then have "str_unsigned s = None \<or> (\<exists>x r. str_unsigned s = Some (Num x, r))"
      using str_unsigned_finite [of c t] s by (cases "str_unsigned s") fastforce+
    with False nsp s \<open>c \<noteq> CHR ''+''\<close> show ?thesis
      by (auto simp: parse_float_def str_decimal_def)
  qed
qed

lemma or_zero_number_ok:
  "number_ok s \<Longrightarrow> or_zero (parse_float s) = Num (field_amount s)"
  using parse_float_valid [of s]
  by (auto simp: number_ok_def field_amount_def or_zero_def)

lemma line_total_ok: "row_ok r \<Longrightarrow> line_total r = Num (line_amount r)"
  by (simp add: row_ok_def line_total_def line_amount_def or_zero_number_ok)

lemma foldl_line_total_ok:
  "\<forall>r\<in>set rs. row_ok r \<Longrightarrow>
     foldl (\<lambda>acc r. js_add acc (line_total r)) (Num a) rs = Num (a + (\<Sum>r\<leftarrow>rs. line_amount r))"
  by (induction rs arbitrary: a) (simp_all add: line_total_ok add.assoc)

lemma cart_subtotal_ok:
  "\<forall>r\<in>set rs. row_ok r \<Longrightarrow> cart_subtotal rs = Num (\<Sum>r\<leftarrow>rs. line_amount r)"
  using foldl_line_total_ok [of rs 0] by (simp add: cart_subtotal_def)

subsection \<open>Rows: removal and creation\<close>


lemma update_totals_rows_update [simp]:
  "update_totals ((update_totals c)\<lparr>rows := rs\<rparr>) = update_totals (c\<lparr>rows := rs\<rparr>)"
  by (simp add: update_totals_def total_rows_eq)

lemma remove_row_ids:
  "map row_id (rows (remove_row h c)) = filter (\<lambda>i. i \<noteq> h) (map row_id (rows c))"
  by (simp add: remove_row_def cart_simps filter_map comp_def)

text \<open>
  C15: removing the row of a handle in a consistent cart (handles distinct)
  drops exactly that handle from the table, and the subtotal and grand total
  then show the previous sum of the row amounts less the removed row's amount.
\<close>

theorem remove_row_subtotal:
  assumes "cart_ok c" and "r \<in> set (rows c)"
  shows "map row_id (rows (remove_row (row_id r) c)) = remove1 (row_id r) (map row_id (rows c)) \<and>
         subtotal_text (remove_row (row_id r) c) =
           format_currency (Num ((\<Sum>x\<leftarrow>rows c. line_amount x) - line_amount r)) \<and>
         grand_total_text (remove_row (row_id r) c) = subtotal_text (remove_row (row_id r) c)"
proof -
  have d: "distinct (map row_id (rows c))" and ok: "\<forall>x\<in>set (rows c). row_ok x"
    using assms(1) by (auto simp: cart_ok_def)
  have "map row_id (rows (remove_row (row_id r) c)) = removeAll (row_id r) (map row_id (rows c))"
    by (simp add: remove_row_ids removeAll_filter_not_eq eq_commute)
  also have "\<dots> = remove1 (row_id r) (map row_id (rows c))"
    using d by (simp add: distinct_remove1_removeAll)
  finally have ids: "map row_id (rows (remove_row (row_id r) c)) = remove1 (row_id r) (map row_id (rows c))" .
  have "cart_subtotal (filter (\<lambda>x. row_id x \<noteq> row_id r) (rows c)) =
      Num (\<Sum>x\<leftarrow>filter (\<lambda>x. row_id x \<noteq> row_id r) (rows c). line_amount x)"
    using ok by (intro cart_subtotal_ok) auto
  also have "\<dots> = Num ((\<Sum>x\<leftarrow>rows c. line_amount x) - line_amount r)"
    using sum_list_filter_key [OF d assms(2)] by simp
  finally show ?thesis
    using ids by (simp add: remove_row_def update_totals_fields grand_total_of_def)
qed

theorem remove_row_subtotal_witness:
  "map row_id (rows (remove_row 0
     \<lparr>rows = [\<lparr>row_id = 0, desc_value = [], qty_value = ''2'', price_value = ''5'', line_total_text = []\<rparr>,
              \<lparr>row_id = 1, desc_value = [], qty_value = ''3'', price_value = ''4'', line_total_text = []\<rparr>],
      next_row = 2, subtotal_text = [], grand_total_text = []\<rparr>)) = [1] \<and>
   subtotal_text (remove_row 0
     \<lparr>rows = [\<lparr>row_id = 0, desc_value = [], qty_value = ''2'', price_value = ''5'', line_total_text = []\<rparr>,
              \<lparr>row_id = 1, desc_value = [], qty_value = ''3'', price_value = ''4'', line_total_text = []\<rparr>],
      next_row = 2, subtotal_text = [], grand_total_text = []\<rparr>) =
   format_currency (Num (line_amount \<lparr>row_id = 1, desc_value = [], qty_value = ''3'', price_value = ''4'', line_total_text = []\<rparr>))"
proof -
  let ?r0 = "\<lparr>row_id = 0, desc_value = [], qty_value = ''2'', price_value = ''5'', line_total_text = []\<rparr>"
  let ?r1 = "\<lparr>row_id = 1, desc_value = [], qty_value = ''3'', price_value = ''4'', line_total_text = []\<rparr>"
  let ?c = "\<lparr>rows = [?r0, ?r1], next_row = 2, subtotal_text = [], grand_total_text = []\<rparr>"
  have ok: "cart_ok ?c"
    by (simp add: cart_ok_def row_ok_def number_ok_def valid_float_def valid_unsigned_def)
  have mem: "?r0 \<in> set (rows ?c)" by simp
  from remove_row_subtotal [OF ok mem] show ?thesis by (simp del: format_currency_Num)
qed
lemma number_ok_number_value [simp]: "number_ok (number_value s)"
  by (simp add: number_ok_def number_value_def)

lemma row_ok_new_row [simp]: "row_ok (new_row h d q p)"
  by (simp add: row_ok_def new_row_def)

lemma find_product_ids:
  "find_product ''bed'' = Some (products ! 0)"
  "find_product ''wooden-sofa'' = Some (products ! 1)"
  "find_product ''cushion-sofa'' = Some (products ! 2)"
  by (simp_all add: find_product_def products_def)

lemma find_product_other:
  "pid \<notin> set (map prod_id products) \<Longrightarrow> find_product pid = None"
  by (fastforce simp: find_product_def find_None_iff)

text \<open>
  C17: every card \<open>renderCatalog\<close> draws carries the id of a catalogue product
  under that product's name, and a click on its button adds exactly that product
  as a new row (quantity 1, the product's price).
\<close>

theorem catalog_click_adds_card_product:
  assumes "k \<in> set render_catalog"
  shows "\<exists>p\<in>set products. card_button_id k = prod_id p \<and> card_name k = prod_name p \<and>
           catalog_click (Some (card_button_id k)) c = create_item_row (prod_name p) (Num 1) (prod_price p) c"
  using assms
  by (auto simp: render_catalog_def catalog_click_def find_product_def products_def)

theorem catalog_click_adds_card_product_witness:
  "card_button_id (hd render_catalog) = ''bed'' \<and>
   catalog_click (Some ''bed'') \<lparr>rows = [], next_row = 0, subtotal_text = [], grand_total_text = []\<rparr> =
     create_item_row ''King size bed'' (Num 1) (Num 25000)
       \<lparr>rows = [], next_row = 0, subtotal_text = [], grand_total_text = []\<rparr>"
proof -
  have h: "hd render_catalog \<in> set render_catalog"
    by (simp add: render_catalog_def products_def)
  have id: "card_button_id (hd render_catalog) = ''bed''"
    by (simp add: render_catalog_def products_def)
  from catalog_click_adds_card_product [OF h,
      of "\<lparr>rows = [], next_row = 0, subtotal_text = [], grand_total_text = []\<rparr>"]
  obtain p where "p \<in> set products" and "card_button_id (hd render_catalog) = prod_id p"
    and "catalog_click (Some (card_button_id (hd render_catalog)))
           \<lparr>rows = [], next_row = 0, subtotal_text = [], grand_total_text = []\<rparr> =
         create_item_row (prod_name p) (Num 1) (prod_price p)
           \<lparr>rows = [], next_row = 0, subtotal_text = [], grand_total_text = []\<rparr>"
    by blast
  moreover from this have "p = hd products"
    using id by (auto simp: products_def)
  ultimately show ?thesis using id by (simp add: products_def)
qed


subsection \<open>The cart invariant and freshness of the totals\<close>


lemma cart_ok_update_totals [simp]: "cart_ok (update_totals c) = cart_ok c"
  by (simp add: cart_ok_def cart_simps comp_def row_ok_def)

lemma totals_fresh_update_totals [simp]: "totals_fresh (update_totals c)"
  by (rule update_totals_fresh)

lemma row_id_edit [simp]:
  "row_id (if b then r\<lparr>qty_value := v\<rparr> else r) = row_id r"
  "row_id (if b then r\<lparr>price_value := v\<rparr> else r) = row_id r"
  "row_id (if b then r\<lparr>desc_value := v\<rparr> else r) = row_id r"
  by simp_all

lemma cart_ok_create_item_row: "cart_ok c \<Longrightarrow> cart_ok (create_item_row d q u c)"
  unfolding create_item_row_def cart_ok_update_totals by (auto simp: cart_ok_def new_row_def row_ok_def)

lemma cart_ok_edit_qty: "cart_ok c \<Longrightarrow> cart_ok (edit_qty h s c)"
  unfolding edit_qty_def cart_ok_update_totals by (auto simp: cart_ok_def comp_def row_ok_def)

lemma cart_ok_edit_price: "cart_ok c \<Longrightarrow> cart_ok (edit_price h s c)"
  unfolding edit_price_def cart_ok_update_totals by (auto simp: cart_ok_def comp_def row_ok_def)

lemma cart_ok_edit_desc: "cart_ok c \<Longrightarrow> cart_ok (edit_desc h s c)"
  by (auto simp: cart_ok_def edit_desc_def comp_def row_ok_def)

lemma cart_ok_remove_row: "cart_ok c \<Longrightarrow> cart_ok (remove_row h c)"
  unfolding remove_row_def cart_ok_update_totals by (auto simp: cart_ok_def distinct_map_filter)

lemma cart_ok_catalog_click: "cart_ok c \<Longrightarrow> cart_ok (catalog_click t c)"
  by (auto simp: catalog_click_def cart_ok_create_item_row split: option.splits)

lemma line_total_desc [simp]: "line_total (r\<lparr>desc_value := x\<rparr>) = line_total r"
  by (simp add: line_total_def)

lemma cart_subtotal_map:
  "(\<And>r. line_total (f r) = line_total r) \<Longrightarrow> cart_subtotal (map f rs) = cart_subtotal rs"
  by (simp add: cart_subtotal_def foldl_map)

lemma totals_fresh_edit_desc: "totals_fresh c \<Longrightarrow> totals_fresh (edit_desc h s c)"
proof -
  assume f: "totals_fresh c"
  have "cart_subtotal (map (\<lambda>r. if row_id r = h then r\<lparr>desc_value := text_value s\<rparr> else r) (rows c)) =
      cart_subtotal (rows c)"
    by (rule cart_subtotal_map) simp
  with f show ?thesis
    by (auto simp: totals_fresh_def edit_desc_def)
qed

lemma totals_fresh_ops:
  "totals_fresh (create_item_row d q u c)" "totals_fresh (edit_qty h s c)"
  "totals_fresh (edit_price h s c)" "totals_fresh (remove_row h c)"
  by (simp_all add: create_item_row_def edit_qty_def edit_price_def remove_row_def)

lemma totals_fresh_catalog_click: "totals_fresh c \<Longrightarrow> totals_fresh (catalog_click t c)"
  by (auto simp: catalog_click_def totals_fresh_ops split: option.splits)

subsection \<open>Properties of updateTotals\<close>

text \<open>
  C2: after \<open>updateTotals\<close>, over rows whose inputs hold what a number input
  can hold, the subtotal display shows the exact sum of quantity times unit
  price over exactly the present rows (a field that does not parse counts as 0),
  each line-total cell shows its row's product, and the grand total display
  equals the subtotal display.
\<close>

theorem update_totals_subtotal:
  assumes "\<forall>r\<in>set (rows c). row_ok r"
  shows "subtotal_text (update_totals c) = format_currency (Num (\<Sum>r\<leftarrow>rows c. line_amount r)) \<and>
         grand_total_text (update_totals c) = subtotal_text (update_totals c) \<and>
         map line_total_text (rows (update_totals c)) =
           map (\<lambda>r. format_currency (Num (line_amount r))) (rows c)"
proof -
  have "\<And>r. r \<in> set (rows c) \<Longrightarrow> line_total r = Num (line_amount r)"
    using assms line_total_ok by blast
  then show ?thesis
    using assms by (simp add: cart_simps cart_subtotal_ok grand_total_of_def cong: map_cong)
qed

theorem update_totals_subtotal_witness:
  "subtotal_text (update_totals \<lparr>rows = [\<lparr>row_id = 0, desc_value = [], qty_value = ''2'',
        price_value = ''500'', line_total_text = []\<rparr>], next_row = 1, subtotal_text = [],
        grand_total_text = []\<rparr>) = format_currency (Num 1000)"
proof -
  let ?r = "\<lparr>row_id = 0, desc_value = [], qty_value = ''2'', price_value = ''500'', line_total_text = []\<rparr>"
  have ok: "\<forall>r\<in>set (rows \<lparr>rows = [?r], next_row = 1, subtotal_text = [], grand_total_text = []\<rparr>). row_ok r"
    by (simp add: row_ok_def number_ok_def valid_float_def valid_unsigned_def)
  have "field_amount ''2'' = 2" and "field_amount ''500'' = 500"
    using parse_float_string_of_nat [of 2] parse_float_string_of_nat [of 500]
    by (simp_all add: field_amount_def string_of_nat_def digits_of_nat.simps)
  with update_totals_subtotal [OF ok] show ?thesis
    by (simp add: line_amount_def)
qed

end
