(* ===== verification/Ledger.thy ===== *)
theory Ledger
  imports Currency
begin

text \<open>
  The sales ledger of src/script.js (lines 184--250): \<open>loadSales\<close>,
  \<open>saveSales\<close>, \<open>recordSale\<close> and \<open>buildMonthlyReport\<close>, over the browser's
  \<open>localStorage\<close>.  The stored text under \<open>starFurnitureSales\<close> is modelled by
  what \<open>JSON.parse\<close> makes of it: a JSON value, or a text it rejects.  A storage
  that is disabled throws on reading, a full or disabled one on writing; both are
  flags of the storage.  Property access, truthiness, \<open>slice\<close> and
  \<open>Number()\<close> follow ECMAScript on the JSON values a stored record can hold, so
  that a record of any shape is read as the code reads it, exceptions included.
\<close>

datatype json =
    JNull
  | JBool bool
  | JNum rat
  | JStr string
  | JArr "json list"
  | JObj "(string \<times> json) list"

datatype js_error = TypeError | SecurityError | QuotaExceededError | SyntaxError

datatype stored_text = JsonText json | Unparsable

record local_storage =
  ls_items :: "string \<Rightarrow> stored_text option"
  ls_readable :: bool
  ls_writable :: bool

subsection \<open>Storage and JSON\<close>

definition sales_storage_key :: string where
  "sales_storage_key = ''starFurnitureSales''"

definition get_item :: "local_storage \<Rightarrow> string \<Rightarrow> js_error + stored_text option" where
  "get_item ls k = (if ls_readable ls then Inr (ls_items ls k) else Inl SecurityError)"

definition set_item :: "local_storage \<Rightarrow> string \<Rightarrow> stored_text \<Rightarrow> js_error + local_storage" where
  "set_item ls k v =
     (if ls_writable ls then Inr (ls\<lparr>ls_items := (ls_items ls)(k \<mapsto> v)\<rparr>) else Inl QuotaExceededError)"

definition json_parse :: "stored_text \<Rightarrow> js_error + json" where
  "json_parse raw = (case raw of JsonText v \<Rightarrow> Inr v | Unparsable \<Rightarrow> Inl SyntaxError)"

text \<open>\<open>JSON.stringify\<close> of a Number: NaN and the infinities become \<open>null\<close>.\<close>

fun json_of_number :: "jsnum \<Rightarrow> json" where
  "json_of_number (Num x) = JNum x"
| "json_of_number _ = JNull"

subsection \<open>loadSales, saveSales, recordSale\<close>

definition load_sales :: "local_storage \<Rightarrow> json list" where
  "load_sales ls =
     (case get_item ls sales_storage_key of
        Inl _ \<Rightarrow> []
      | Inr None \<Rightarrow> []
      | Inr (Some raw) \<Rightarrow>
          (case json_parse raw of
             Inl _ \<Rightarrow> []
           | Inr (JArr parsed) \<Rightarrow> parsed
           | Inr _ \<Rightarrow> []))"

definition save_sales :: "local_storage \<Rightarrow> json list \<Rightarrow> local_storage" where
  "save_sales ls sales =
     (case set_item ls sales_storage_key (JsonText (JArr sales)) of
        Inl _ \<Rightarrow> ls
      | Inr ls' \<Rightarrow> ls')"

definition sale_record :: "string \<Rightarrow> jsnum \<Rightarrow> string \<Rightarrow> json" where
  "sale_record invoice_date total_amount created_at =
     JObj [(''date'', JStr invoice_date), (''total'', json_of_number total_amount),
           (''createdAt'', JStr created_at)]"

text \<open>\<open>recordSale(invoiceDate, totalAmount)\<close>; \<open>now\<close> is \<open>new Date().toISOString()\<close>.\<close>

definition record_sale :: "local_storage \<Rightarrow> string \<Rightarrow> jsnum \<Rightarrow> string \<Rightarrow> local_storage" where
  "record_sale ls invoice_date total_amount now =
     (let sales = load_sales ls
      in save_sales ls (sales @ [sale_record invoice_date total_amount now]))"

subsection \<open>Reading a stored record as JavaScript does\<close>

text \<open>A property read gives a value or \<open>undefined\<close>.\<close>

datatype jsval = Undef | JV json

text \<open>
  \<open>sale.k\<close>: a TypeError on \<open>null\<close>; an object's own property (the last of
  duplicate keys, as \<open>JSON.parse\<close> keeps it); \<open>undefined\<close> on the other
  values, which have no such property.
\<close>

fun get_prop :: "json \<Rightarrow> string \<Rightarrow> js_error + jsval" where
  "get_prop JNull k = Inl TypeError"
| "get_prop (JObj kvs) k = Inr (case map_of (rev kvs) k of None \<Rightarrow> Undef | Some v \<Rightarrow> JV v)"
| "get_prop _ k = Inr Undef"

fun val_truthy :: "jsval \<Rightarrow> bool" where
  "val_truthy Undef = False"
| "val_truthy (JV JNull) = False"
| "val_truthy (JV (JBool b)) = b"
| "val_truthy (JV (JNum x)) = (x \<noteq> 0)"
| "val_truthy (JV (JStr s)) = (s \<noteq> [])"
| "val_truthy (JV (JArr _)) = True"
| "val_truthy (JV (JObj _)) = True"

text \<open>\<open>Array.prototype.join(",")\<close> on the element strings.\<close>

fun join_comma :: "string list \<Rightarrow> string" where
  "join_comma [] = []"
| "join_comma [x] = x"
| "join_comma (x # xs) = x @ CHR '','' # join_comma xs"

text \<open>ToString of a JSON value; an array joins its elements with commas, \<open>null\<close> as empty.\<close>

fun json_to_string :: "json \<Rightarrow> string" where
  "json_to_string JNull = ''null''"
| "json_to_string (JBool b) = (if b then ''true'' else ''false'')"
| "json_to_string (JNum x) = js_number_to_string (Num x)"
| "json_to_string (JStr s) = s"
| "json_to_string (JArr xs) =
     join_comma (map (\<lambda>x. if x = JNull then [] else json_to_string x) xs)"
| "json_to_string (JObj _) = ''[object Object]''"

text \<open>\<open>Number(v)\<close> (ECMAScript 7.1.4).\<close>

fun to_number :: "jsval \<Rightarrow> jsnum" where
  "to_number Undef = NaN"
| "to_number (JV JNull) = Num 0"
| "to_number (JV (JBool b)) = Num (if b then 1 else 0)"
| "to_number (JV (JNum x)) = Num x"
| "to_number (JV (JStr s)) = string_to_number s"
| "to_number (JV (JArr xs)) = string_to_number (json_to_string (JArr xs))"
| "to_number (JV (JObj _)) = NaN"

text \<open>\<open>sale.date || sale.createdAt || ""\<close>\<close>

definition sale_date_value :: "json \<Rightarrow> js_error + jsval" where
  "sale_date_value sale =
     (case get_prop sale ''date'' of
        Inl e \<Rightarrow> Inl e
      | Inr d \<Rightarrow>
          if val_truthy d then Inr d
          else (case get_prop sale ''createdAt'' of
                  Inl e \<Rightarrow> Inl e
                | Inr c \<Rightarrow> if val_truthy c then Inr c else Inr (JV (JStr []))))"

text \<open>
  \<open>date.slice(0, 7)\<close> and \<open>if (!monthKey) return;\<close>: a string gives its first
  seven characters, skipped when empty; an array gives an array, always truthy,
  used as the key its ToString spells; the other values have no \<open>slice\<close>
  method and the call throws a TypeError.
\<close>

fun month_key :: "jsval \<Rightarrow> js_error + string option" where
  "month_key (JV (JStr s)) = Inr (if take 7 s = [] then None else Some (take 7 s))"
| "month_key (JV (JArr xs)) = Inr (Some (json_to_string (JArr (take 7 xs))))"
| "month_key _ = Inl TypeError"

text \<open>\<open>monthlyTotals[monthKey] = (monthlyTotals[monthKey] || 0) + amount\<close>\<close>

definition add_to_month :: "string \<Rightarrow> jsnum \<Rightarrow> (string \<times> jsnum) list \<Rightarrow> (string \<times> jsnum) list" where
  "add_to_month k amount acc =
     AList.update k (js_add (case map_of acc k of None \<Rightarrow> Num 0 | Some v \<Rightarrow> or_zero v) amount) acc"

text \<open>The \<open>forEach\<close> over the sales; an exception leaves the loop and the report.\<close>

fun tally :: "(string \<times> jsnum) list \<Rightarrow> json list \<Rightarrow> js_error + (string \<times> jsnum) list" where
  "tally acc [] = Inr acc"
| "tally acc (sale # sales) =
     (case sale_date_value sale of
        Inl e \<Rightarrow> Inl e
      | Inr date \<Rightarrow>
          (case month_key date of
             Inl e \<Rightarrow> Inl e
           | Inr None \<Rightarrow> tally acc sales
           | Inr (Some k) \<Rightarrow>
               (case get_prop sale ''total'' of
                  Inl e \<Rightarrow> Inl e
                | Inr t \<Rightarrow> tally (add_to_month k (or_zero (to_number t)) acc) sales)))"

text \<open>
  \<open>Object.entries(monthlyTotals).sort((a, b) => (a[0] < b[0] ? -1 : 1))\<close>: the
  keys are distinct, so the comparator is consistent and the entries come out in
  ascending key order, whatever order \<open>Object.entries\<close> lists them in.
\<close>

definition monthly_entries :: "json list \<Rightarrow> js_error + (string \<times> jsnum) list" where
  "monthly_entries sales =
     (case tally [] sales of Inl e \<Rightarrow> Inl e | Inr acc \<Rightarrow> Inr (sort_key fst acc))"

text \<open>
  What the report table shows: one row per month with its total through
  \<open>formatCurrency\<close>, and whether the ``empty'' notice is displayed.
\<close>

record report_view =
  report_rows :: "(string \<times> string) list"
  report_empty_shown :: bool

definition build_monthly_report :: "local_storage \<Rightarrow> js_error + report_view" where
  "build_monthly_report ls =
     (case monthly_entries (load_sales ls) of
        Inl e \<Rightarrow> Inl e
      | Inr entries \<Rightarrow>
          Inr \<lparr>report_rows = map (\<lambda>(month, total). (month, format_currency total)) entries,
               report_empty_shown = (entries = [])\<rparr>)"

subsection \<open>The report the spec describes\<close>

text \<open>
  The spec's report: records grouped by month key, their totals summed, months in
  ascending order.  \<open>sale_summary\<close> reads the month key and the total of a record
  of the shape \<open>recordSale\<close> writes (an object with a non-empty string date and
  a number total); \<open>spec_report\<close> is the grouping over such summaries.
\<close>

fun sale_summary :: "json \<Rightarrow> (string \<times> rat) option" where
  "sale_summary (JObj kvs) =
     (case (map_of (rev kvs) ''date'', map_of (rev kvs) ''total'') of
        (Some (JStr d), Some (JNum t)) \<Rightarrow> if d = [] then None else Some (take 7 d, t)
      | _ \<Rightarrow> None)"
| "sale_summary _ = None"

definition month_sum :: "(string \<times> rat) list \<Rightarrow> string \<Rightarrow> rat" where
  "month_sum xs k = sum_list (map snd (filter (\<lambda>p. fst p = k) xs))"

definition spec_report :: "(string \<times> rat) list \<Rightarrow> (string \<times> jsnum) list" where
  "spec_report xs = map (\<lambda>k. (k, Num (month_sum xs k))) (sort (remdups (map fst xs)))"

text \<open>A storage holding no item, readable and writable: a fresh browser profile.\<close>

definition empty_storage :: local_storage where
  "empty_storage = \<lparr>ls_items = (\<lambda>_. None), ls_readable = True, ls_writable = True\<rparr>"

text \<open>The accumulation of \<open>tally\<close> over summaries, a proof device.\<close>

definition acc_fold :: "(string \<times> rat) list \<Rightarrow> (string \<times> jsnum) list \<Rightarrow> (string \<times> jsnum) list" where
  "acc_fold xs acc = foldl (\<lambda>a (k, t). add_to_month k (Num t) a) acc xs"

subsection \<open>Persistence\<close>


lemma load_sales_stored [ledger_simps]:
  "ls_readable ls \<Longrightarrow> ls_items ls sales_storage_key = Some (JsonText (JArr xs)) \<Longrightarrow> load_sales ls = xs"
  by (simp add: load_sales_def get_item_def json_parse_def)

lemma save_sales_writable [ledger_simps]:
  "ls_writable ls \<Longrightarrow> save_sales ls sales = ls\<lparr>ls_items := (ls_items ls)(sales_storage_key \<mapsto> JsonText (JArr sales))\<rparr>"
  by (simp add: save_sales_def set_item_def)

lemma save_sales_failed [ledger_simps]: "\<not> ls_writable ls \<Longrightarrow> save_sales ls sales = ls"
  by (simp add: save_sales_def set_item_def)

text \<open>
  C8: with a readable and writable storage, the history \<open>loadSales\<close> reads
  after \<open>recordSale(date, total)\<close> is the history before it with the new record
  \<open>{date, total, createdAt}\<close> appended: the read-modify-write of the whole list
  loses nothing and adds exactly one record at the end.
\<close>

theorem load_after_record:
  assumes "ls_readable ls" and "ls_writable ls"
  shows "load_sales (record_sale ls d t now) = load_sales ls @ [sale_record d t now]"
  using assms by (simp add: record_sale_def ledger_simps)

theorem load_after_record_witness:
  "ls_readable empty_storage \<and> ls_writable empty_storage \<and>
   load_sales (record_sale empty_storage ''2024-01-05'' (Num 100) ''2024-01-05T09:30:00.000Z'') =
     [sale_record ''2024-01-05'' (Num 100) ''2024-01-05T09:30:00.000Z'']"
  using load_after_record [of empty_storage "''2024-01-05''" "Num 100" "''2024-01-05T09:30:00.000Z''"]
  by (simp add: empty_storage_def load_sales_def get_item_def)

text \<open>
  C13: \<open>loadSales\<close> fails soft: an unreadable storage, a missing key, text
  that \<open>JSON.parse\<close> rejects and a JSON value that is not an array all read as
  the empty history, never as an error.
\<close>

theorem load_sales_fail_soft:
  assumes "\<not> ls_readable ls \<or> ls_items ls sales_storage_key = None \<or>
           ls_items ls sales_storage_key = Some Unparsable \<or>
           (\<exists>v. ls_items ls sales_storage_key = Some (JsonText v) \<and> (\<forall>xs. v \<noteq> JArr xs))"
  shows "load_sales ls = []"
  using assms by (auto simp: load_sales_def get_item_def json_parse_def split: json.splits)

theorem load_sales_fail_soft_witness:
  "load_sales (empty_storage\<lparr>ls_items := (\<lambda>_. None)(sales_storage_key \<mapsto> Unparsable)\<rparr>) = []"
  using load_sales_fail_soft [of "empty_storage\<lparr>ls_items := (\<lambda>_. None)(sales_storage_key \<mapsto> Unparsable)\<rparr>"]
  by simp

lemma tally_error: "tally acc sales = Inl e \<Longrightarrow> e = TypeError"
proof (induction acc sales rule: tally.induct)
  case (1 acc)
  then show ?case by simp
next
  case (2 acc sale sales)
  then show ?case
    by (cases sale) (auto simp: sale_date_value_def split: sum.splits option.splits if_splits,
        auto elim: month_key.elims)
qed


subsection \<open>The monthly report\<close>


lemma sale_summary_Some:
  assumes "sale_summary s = Some (k, t)"
  shows "sale_date_value s \<noteq> Inl TypeError \<and> (\<exists>d. sale_date_value s = Inr (JV (JStr d)) \<and> take 7 d = k \<and> k \<noteq> []) \<and>
         get_prop s ''total'' = Inr (JV (JNum t))"
  using assms
  by (cases s rule: sale_summary.cases)
     (auto simp: sale_date_value_def split: option.splits json.splits if_splits)

lemma tally_summaries:
  "those (map sale_summary sales) = Some xs \<Longrightarrow> tally acc sales = Inr (acc_fold xs acc)"
proof (induction sales arbitrary: xs acc)
  case Nil
  then show ?case by (simp add: acc_fold_def)
next
  case (Cons s sales)
  from Cons.prems obtain k t xs' where s: "sale_summary s = Some (k, t)" and
    rest: "those (map sale_summary sales) = Some xs'" and xs: "xs = (k, t) # xs'"
    by (auto split: option.splits)
  from sale_summary_Some [OF s] obtain d where
    d: "sale_date_value s = Inr (JV (JStr d))" "take 7 d = k" "k \<noteq> []"
    and tot: "get_prop s ''total'' = Inr (JV (JNum t))" by blast
  show ?case
    using d tot Cons.IH [OF rest] xs by (simp add: acc_fold_def)
qed

lemma month_sum_snoc:
  "month_sum (xs @ [(k, t)]) k' = month_sum xs k' + (if k' = k then t else 0)"
  by (simp add: month_sum_def)

lemma month_sum_notin: "k \<notin> fst ` set xs \<Longrightarrow> month_sum xs k = 0"
  by (induction xs) (auto simp: month_sum_def)

lemma acc_fold_snoc:
  "acc_fold (xs @ [(k, t)]) acc = add_to_month k (Num t) (acc_fold xs acc)"
  by (simp add: acc_fold_def)

lemma map_of_acc_fold:
  "map_of (acc_fold xs []) k = (if k \<in> fst ` set xs then Some (Num (month_sum xs k)) else None)"
proof (induction xs arbitrary: k rule: rev_induct)
  case Nil
  then show ?case by (simp add: acc_fold_def)
next
  case (snoc p xs)
  then show ?case
    by (cases p) (auto simp: acc_fold_snoc add_to_month_def update_conv' month_sum_snoc month_sum_notin)
qed

lemma acc_fold_keys: "fst ` set (acc_fold xs []) = fst ` set xs"
proof (induction xs rule: rev_induct)
  case Nil
  then show ?case by (simp add: acc_fold_def)
next
  case (snoc p xs)
  then show ?case
    by (cases p) (auto simp: acc_fold_def add_to_month_def dom_update)
qed

lemma acc_fold_distinct: "distinct (map fst (acc_fold xs []))"
  by (induction xs rule: rev_induct) (auto simp: acc_fold_def add_to_month_def)

lemma alist_by_keys:
  "distinct (map fst al) \<Longrightarrow> al = map (\<lambda>k. (k, the (map_of al k))) (map fst al)"
proof (induction al)
  case Nil
  then show ?case by simp
next
  case (Cons p al)
  obtain k v where p: "p = (k, v)" by (cases p)
  have "map (\<lambda>k'. (k', the (map_of (p # al) k'))) (map fst al) =
        map (\<lambda>k'. (k', the (map_of al k'))) (map fst al)"
    using Cons.prems p by (auto intro!: map_cong)
  with Cons show ?case by (simp add: p)
qed

lemma sort_key_alist:
  assumes "distinct (map fst al)"
  shows "sort_key fst al = map (\<lambda>k. (k, the (map_of al k))) (sort (remdups (map fst al)))"
proof -
  let ?L = "sort_key fst al"
  have dl: "distinct ?L" and inj: "inj_on fst (set al)"
    using assms by (simp_all add: distinct_map)
  then have dk: "distinct (map fst ?L)" by (simp add: distinct_map)
  have "map fst ?L = sort (remdups (map fst al))"
    by (rule sorted_distinct_set_unique) (simp_all add: dk)
  moreover have "map_of ?L = map_of al"
    using dk assms by (simp add: map_of_inject_set)
  moreover have "?L = map (\<lambda>k. (k, the (map_of ?L k))) (map fst ?L)"
    using dk by (rule alist_by_keys)
  ultimately show ?thesis by simp
qed

text \<open>
  C9: on a history of records of the shape \<open>recordSale\<close> writes, the entries of
  \<open>buildMonthlyReport\<close> are the spec's report: one entry per month key (the first
  seven characters of the date), holding the sum of that month's totals, in
  ascending key order.
\<close>

theorem monthly_entries_refines:
  assumes "those (map sale_summary sales) = Some xs"
  shows "monthly_entries sales = Inr (spec_report xs)"
proof -
  let ?r = "acc_fold xs []"
  have "monthly_entries sales = Inr (sort_key fst ?r)"
    using tally_summaries [OF assms] by (simp add: monthly_entries_def)
  also have "sort_key fst ?r = map (\<lambda>k. (k, the (map_of ?r k))) (sort (remdups (map fst ?r)))"
    using acc_fold_distinct by (rule sort_key_alist)
  also have "sort (remdups (map fst ?r)) = sort (remdups (map fst xs))"
    by (rule sorted_distinct_set_unique) (simp_all add: acc_fold_keys)
  also have "map (\<lambda>k. (k, the (map_of ?r k))) (sort (remdups (map fst xs))) = spec_report xs"
    by (auto simp: spec_report_def map_of_acc_fold intro!: map_cong)
  finally show ?thesis .
qed

theorem monthly_entries_refines_witness:
  "those (map sale_summary [JObj [(''date'', JStr ''2024-01-05''), (''total'', JNum 100)]]) =
     Some [(''2024-01'', 100)] \<and>
   monthly_entries [JObj [(''date'', JStr ''2024-01-05''), (''total'', JNum 100)]] =
     Inr (spec_report [(''2024-01'', 100)])"
  using monthly_entries_refines [of "[JObj [(''date'', JStr ''2024-01-05''), (''total'', JNum 100)]]"
      "[(''2024-01'', 100)]"]
  by simp



subsection \<open>Errors of the report\<close>

lemma tally_null: "JNull \<in> set sales \<Longrightarrow> \<exists>e. tally acc sales = Inl e"
proof (induction sales arbitrary: acc)
  case Nil
  then show ?case by simp
next
  case (Cons s sales)
  show ?case
  proof (cases "s = JNull")
    case True
    then show ?thesis by (simp add: sale_date_value_def)
  next
    case False
    with Cons.prems have "\<forall>acc. \<exists>e. tally acc sales = Inl e" using Cons.IH by auto
    then show ?thesis by (auto split: sum.splits option.splits)
  qed
qed

text \<open>
  C19: a stored history holding a \<open>null\<close> record makes \<open>buildMonthlyReport\<close>
  throw a TypeError (\<open>sale.date\<close> on \<open>null\<close>), so the report is never shown,
  where the spec promises that malformed data is never raised as an error.
\<close>

theorem monthly_entries_null_error:
  assumes "JNull \<in> set sales"
  shows "monthly_entries sales = Inl TypeError"
proof -
  obtain e where "tally [] sales = Inl e" using tally_null [OF assms] by blast
  moreover then have "e = TypeError" by (rule tally_error)
  ultimately show ?thesis by (simp add: monthly_entries_def)
qed

theorem monthly_entries_null_error_witness:
  "JNull \<in> set [JObj [(''date'', JStr ''2024-01-05''), (''total'', JNum 100)], JNull] \<and>
   monthly_entries [JObj [(''date'', JStr ''2024-01-05''), (''total'', JNum 100)], JNull] = Inl TypeError"
  using monthly_entries_null_error [of "[JObj [(''date'', JStr ''2024-01-05''), (''total'', JNum 100)], JNull]"]
  by simp

text \<open>
  C12: an empty history yields an empty report: no rows and the ``empty'' notice shown.
\<close>

theorem report_empty_history:
  assumes "load_sales ls = []"
  shows "build_monthly_report ls = Inr \<lparr>report_rows = [], report_empty_shown = True\<rparr>"
  using assms by (simp add: build_monthly_report_def monthly_entries_def)

theorem report_empty_history_witness:
  "load_sales empty_storage = [] \<and>
   build_monthly_report empty_storage = Inr \<lparr>report_rows = [], report_empty_shown = True\<rparr>"
proof -
  have h: "load_sales empty_storage = []"
    by (simp add: empty_storage_def load_sales_def get_item_def)
  show ?thesis using h report_empty_history [OF h] by simp
qed

text \<open>
  C10: the spec's example: records of 2024-01-05 (100), 2024-01-20 (50) and
  2024-02-01 (30) give the rows 2024-01 with \<open>\<rupee>150.00\<close> and 2024-02 with
  \<open>\<rupee>30.00\<close>, in that order.
\<close>

theorem monthly_report_spec_example:
  "build_monthly_report
     \<lparr>ls_items = (\<lambda>_. None)(sales_storage_key \<mapsto> JsonText (JArr
        [JObj [(''date'', JStr ''2024-01-05''), (''total'', JNum 100)],
         JObj [(''date'', JStr ''2024-01-20''), (''total'', JNum 50)],
         JObj [(''date'', JStr ''2024-02-01''), (''total'', JNum 30)]])),
      ls_readable = True, ls_writable = True\<rparr> =
   Inr \<lparr>report_rows = [(''2024-01'', rupee_sign @ ''150.00''), (''2024-02'', rupee_sign @ ''30.00'')],
        report_empty_shown = False\<rparr>"
proof -
  have e: "monthly_entries [JObj [(''date'', JStr ''2024-01-05''), (''total'', JNum 100)],
         JObj [(''date'', JStr ''2024-01-20''), (''total'', JNum 50)],
         JObj [(''date'', JStr ''2024-02-01''), (''total'', JNum 30)]] =
       Inr [(''2024-01'', Num 150), (''2024-02'', Num 30)]"
    by (simp add: monthly_entries_def sale_date_value_def add_to_month_def)
  have f: "format_currency (Num 150) = rupee_sign @ ''150.00''"
    "format_currency (Num 30) = rupee_sign @ ''30.00''"
    by (simp_all add: to_fixed2_def to_fixed2_nonneg_def fixed2_digits_def string_of_nat_def digits_of_nat.simps)
  show ?thesis
    by (simp add: build_monthly_report_def load_sales_def get_item_def json_parse_def e f
        del: format_currency_Num)
qed

end
