(* ===== verification/App.thy ===== *)
theory App
  imports Cart Ledger
begin

text \<open>
  The page of src/script.js as one state machine: the cart of Cart.thy extended
  with the form fields, the two modals, the report table, the alerts shown and
  the browser's storage; one handler per event listener of the event-wiring
  section (lines 268--375), composed from the operations of Cart.thy and
  Ledger.thy as the listeners call them.  The environment supplies what the code
  asks the browser for: the clock (\<open>new Date()\<close>), the answer to
  \<open>confirm\<close>, and what the user types.
\<close>

record page = cart +
  customer_name :: string
  customer_phone :: string
  customer_address :: string
  notes_text :: string
  invoice_date :: string
  catalog_cards :: "card list"
  qr_open :: bool
  report_open :: bool
  report :: report_view
  alerts :: "string list"
  storage :: local_storage

subsection \<open>The date input\<close>

text \<open>
  An \<open>input type="date"\<close> keeps only a valid date string (HTML 2.3.5.2):
  a year of at least four digits above zero, a month 01--12 and a day within the
  month, separated by hyphens; anything else leaves it empty.
\<close>

definition days_in_month :: "nat \<Rightarrow> nat \<Rightarrow> nat" where
  "days_in_month y m =
     (if m = 2 then (if (4 dvd y \<and> \<not> 100 dvd y) \<or> 400 dvd y then 29 else 28)
      else if m \<in> {4, 6, 9, 11} then 30 else 31)"

definition valid_date_string :: "string \<Rightarrow> bool" where
  "valid_date_string s =
     (let ys = takeWhile is_digit s;
          r = dropWhile is_digit s
      in 4 \<le> length ys \<and> 0 < digits_value ys \<and>
         (case r of
            [c, m1, m2, c', d1, d2] \<Rightarrow>
              c = CHR ''-'' \<and> c' = CHR ''-'' \<and> is_digit m1 \<and> is_digit m2 \<and> is_digit d1 \<and> is_digit d2 \<and>
              (let m = digits_value [m1, m2]; d = digits_value [d1, d2]
               in 1 \<le> m \<and> m \<le> 12 \<and> 1 \<le> d \<and> d \<le> days_in_month (digits_value ys) m)
          | _ \<Rightarrow> False))"

definition date_value :: "string \<Rightarrow> string" where
  "date_value s = (if valid_date_string s then s else [])"

text \<open>\<open>String(n).padStart(2, "0")\<close>\<close>

definition pad2 :: "nat \<Rightarrow> string" where
  "pad2 n = (let s = string_of_nat n in if length s < 2 then CHR ''0'' # s else s)"

subsection \<open>Handlers\<close>

text \<open>\<open>openModal\<close> and \<open>closeModal\<close> on the two modals.\<close>

definition close_qr :: "page \<Rightarrow> page" where
  "close_qr p = p\<lparr>qr_open := False\<rparr>"

definition close_report :: "page \<Rightarrow> page" where
  "close_report p = p\<lparr>report_open := False\<rparr>"

text \<open>
  The clear-all button: nothing unless the user confirms; then the rows and the
  customer fields are emptied (the date is kept) and the totals recomputed.
\<close>

definition clear_all :: "bool \<Rightarrow> page \<Rightarrow> page" where
  "clear_all confirmed p =
     (if \<not> confirmed then p
      else update_totals
             (p\<lparr>rows := [], customer_name := [], customer_phone := [], customer_address := [],
                notes_text := []\<rparr>))"

definition payment_notice :: string where
  "payment_notice = ''Please add at least one item before taking payment.''"

text \<open>
  The pay button: the grand total is read back from its display; a total that is
  not positive raises the notice and stops; otherwise the invoice date (today's
  UTC date from \<open>today_iso\<close> when the field is empty) and the total are recorded
  with the timestamp \<open>now_iso\<close>, and the QR modal opens.
\<close>

definition pay_now :: "string \<Rightarrow> string \<Rightarrow> page \<Rightarrow> page" where
  "pay_now today_iso now_iso p =
     (let grand = parse_currency (grand_total_text p)
      in if js_le_zero grand then p\<lparr>alerts := alerts p @ [payment_notice]\<rparr>
         else
           let d = (if invoice_date p \<noteq> [] then invoice_date p else take 10 today_iso)
           in p\<lparr>storage := record_sale (storage p) d grand now_iso, qr_open := True\<rparr>)"

text \<open>
  The report button: \<open>buildMonthlyReport()\<close> then \<open>openModal(reportModal)\<close>;
  when the report throws, the listener stops before anything is written.
\<close>

definition show_report :: "page \<Rightarrow> page" where
  "show_report p =
     (case build_monthly_report (storage p) of
        Inl _ \<Rightarrow> p
      | Inr v \<Rightarrow> p\<lparr>report := v, report_open := True\<rparr>)"

text \<open>
  \<open>DOMContentLoaded\<close>: an empty date field gets the local date
  \<open>yyyy-mm-dd\<close> (as the date input keeps it), an empty cart its first blank row
  (else the totals are recomputed), and the catalogue is drawn.
\<close>

definition dom_loaded :: "nat \<Rightarrow> nat \<Rightarrow> nat \<Rightarrow> page \<Rightarrow> page" where
  "dom_loaded yyyy mm dd p =
     (let p1 = (if invoice_date p = []
                then p\<lparr>invoice_date := date_value (string_of_nat yyyy @ CHR ''-'' # pad2 mm @ CHR ''-'' # pad2 dd)\<rparr>
                else p);
          p2 = (if rows p1 = [] then create_blank_row p1 else update_totals p1)
      in p2\<lparr>catalog_cards := render_catalog\<rparr>)"

subsection \<open>Events and steps\<close>

datatype customer_field = CustomerName | CustomerPhone | CustomerAddress | Notes

datatype event =
    AddItem
  | CatalogClick "string option"
  | EditQty row_handle string
  | EditPrice row_handle string
  | EditDesc row_handle string
  | RemoveRow row_handle
  | EditField customer_field string
  | EditDate string
  | PrintBill
  | ClearAll bool
  | PayNow string string
  | CloseQr
  | QrBackdrop bool
  | ShowReport
  | CloseReport
  | ReportBackdrop bool

definition edit_field :: "customer_field \<Rightarrow> string \<Rightarrow> page \<Rightarrow> page" where
  "edit_field f s p =
     (case f of
        CustomerName \<Rightarrow> p\<lparr>customer_name := s\<rparr>
      | CustomerPhone \<Rightarrow> p\<lparr>customer_phone := s\<rparr>
      | CustomerAddress \<Rightarrow> p\<lparr>customer_address := s\<rparr>
      | Notes \<Rightarrow> p\<lparr>notes_text := s\<rparr>)"

text \<open>
  One event, handled to completion.  A row's listeners exist only while the row is
  in the document, so an event on a handle that is gone does nothing; a backdrop
  click closes its modal only when it hits the modal itself (\<open>event.target\<close>).
\<close>

fun page_step :: "page \<Rightarrow> event \<Rightarrow> page" where
  "page_step p AddItem = create_blank_row p"
| "page_step p (CatalogClick target) = catalog_click target p"
| "page_step p (EditQty h s) = (if h \<in> row_ids p then edit_qty h s p else p)"
| "page_step p (EditPrice h s) = (if h \<in> row_ids p then edit_price h s p else p)"
| "page_step p (EditDesc h s) = (if h \<in> row_ids p then edit_desc h s p else p)"
| "page_step p (RemoveRow h) = (if h \<in> row_ids p then remove_row h p else p)"
| "page_step p (EditField f s) = edit_field f s p"
| "page_step p (EditDate s) = p\<lparr>invoice_date := date_value s\<rparr>"
| "page_step p PrintBill = p"
| "page_step p (ClearAll confirmed) = clear_all confirmed p"
| "page_step p (PayNow today_iso now_iso) = pay_now today_iso now_iso p"
| "page_step p CloseQr = close_qr p"
| "page_step p (QrBackdrop on_modal) = (if on_modal then close_qr p else p)"
| "page_step p ShowReport = show_report p"
| "page_step p CloseReport = close_report p"
| "page_step p (ReportBackdrop on_modal) = (if on_modal then close_report p else p)"

fun run :: "page \<Rightarrow> event list \<Rightarrow> page" where
  "run p [] = p"
| "run p (e # es) = run (page_step p e) es"

text \<open>
  The page as served: no rows yet, the totals showing \<open>\<rupee>0.00\<close>, empty form
  fields, closed modals, and whatever the browser's storage holds.
\<close>

definition initial_page :: "local_storage \<Rightarrow> page" where
  "initial_page ls =
     \<lparr>rows = [], next_row = 0, subtotal_text = rupee_sign @ ''0.00'', grand_total_text = rupee_sign @ ''0.00'',
      customer_name = [], customer_phone = [], customer_address = [], notes_text = [], invoice_date = [],
      catalog_cards = [], qr_open = False, report_open = False,
      report = \<lparr>report_rows = [], report_empty_shown = False\<rparr>, alerts = [], storage = ls\<rparr>"

text \<open>
  The page's invariant: the cart invariant, totals that agree with the rows, and
  a date field that holds a valid date string or nothing.
\<close>

definition page_inv :: "page \<Rightarrow> bool" where
  "page_inv p \<longleftrightarrow> cart_ok p \<and> totals_fresh p \<and> (invoice_date p = [] \<or> valid_date_string (invoice_date p))"

text \<open>The states the page can reach: loaded on some day, then any events.\<close>

inductive reachable :: "page \<Rightarrow> bool" where
  loaded: "reachable (dom_loaded yyyy mm dd (initial_page ls))"
| step: "reachable p \<Longrightarrow> reachable (page_step p e)"

subsection \<open>The page invariant\<close>


lemma date_value_ok: "date_value s = [] \<or> valid_date_string (date_value s)"
  by (simp add: date_value_def)

lemmas cart_op_defs = create_item_row_def create_blank_row_def edit_qty_def edit_price_def
  edit_desc_def remove_row_def update_totals_eq

lemma page_fields_cart_ops:
  "invoice_date (create_item_row d q u p) = invoice_date p"
  "invoice_date (catalog_click t p) = invoice_date p"
  "invoice_date (edit_qty h s p) = invoice_date p"
  "invoice_date (edit_price h s p) = invoice_date p"
  "invoice_date (edit_desc h s p) = invoice_date p"
  "invoice_date (remove_row h p) = invoice_date p"
  by (simp_all add: cart_op_defs catalog_click_def split: option.splits)

lemma page_inv_step:
  assumes "page_inv p"
  shows "page_inv (page_step p e)"
  using assms
proof (cases e)
  case AddItem
  with assms show ?thesis
    by (auto simp: page_inv_def page_fields_cart_ops create_blank_row_def cart_ok_create_item_row totals_fresh_ops)
next
  case (CatalogClick t)
  with assms show ?thesis
    by (auto simp: page_inv_def page_fields_cart_ops cart_ok_catalog_click totals_fresh_catalog_click)
next
  case (EditQty h s)
  with assms show ?thesis
    by (auto simp: page_inv_def page_fields_cart_ops cart_ok_edit_qty totals_fresh_ops)
next
  case (EditPrice h s)
  with assms show ?thesis
    by (auto simp: page_inv_def page_fields_cart_ops cart_ok_edit_price totals_fresh_ops)
next
  case (EditDesc h s)
  with assms show ?thesis
    by (auto simp: page_inv_def page_fields_cart_ops cart_ok_edit_desc totals_fresh_edit_desc)
next
  case (RemoveRow h)
  with assms show ?thesis
    by (auto simp: page_inv_def page_fields_cart_ops cart_ok_remove_row totals_fresh_ops)
next
  case (EditField f s)
  with assms show ?thesis
    by (cases f) (auto simp: page_inv_def edit_field_def cart_ok_def totals_fresh_def)
next
  case (EditDate s)
  with assms show ?thesis
    using date_value_ok [of s] by (auto simp: page_inv_def cart_ok_def totals_fresh_def)
next
  case (ClearAll b)
  with assms show ?thesis
    by (auto simp: page_inv_def clear_all_def update_totals_eq cart_ok_def totals_fresh_def)
next
  case (PayNow t n)
  with assms show ?thesis
    by (auto simp: page_inv_def pay_now_def Let_def cart_ok_def totals_fresh_def)
next
  case ShowReport
  with assms show ?thesis
    by (auto simp: page_inv_def show_report_def cart_ok_def totals_fresh_def split: sum.splits)
qed (auto simp: page_inv_def close_qr_def close_report_def cart_ok_def totals_fresh_def)

lemma page_inv_loaded: "page_inv (dom_loaded y m d (initial_page ls))"
proof -
  let ?p1 = "(initial_page ls)\<lparr>invoice_date := date_value (string_of_nat y @ CHR ''-'' # pad2 m @ CHR ''-'' # pad2 d)\<rparr>"
  have "dom_loaded y m d (initial_page ls) = (create_blank_row ?p1)\<lparr>catalog_cards := render_catalog\<rparr>"
    by (simp add: dom_loaded_def initial_page_def)
  moreover have "cart_ok (create_blank_row ?p1)"
    unfolding create_blank_row_def by (rule cart_ok_create_item_row) (simp add: cart_ok_def initial_page_def)
  moreover have "totals_fresh (create_blank_row ?p1)"
    by (simp add: create_blank_row_def totals_fresh_ops)
  moreover have "invoice_date (create_blank_row ?p1) = [] \<or> valid_date_string (invoice_date (create_blank_row ?p1))"
    using date_value_ok by (simp add: create_blank_row_def page_fields_cart_ops)
  ultimately show ?thesis
    by (simp add: page_inv_def cart_ok_def totals_fresh_def)
qed

lemma reachable_page_inv: "reachable p \<Longrightarrow> page_inv p"
  by (induction rule: reachable.induct) (auto intro: page_inv_loaded page_inv_step)

lemma reachable_rows_ok: "reachable p \<Longrightarrow> \<forall>r\<in>set (rows p). row_ok r"
  using reachable_page_inv by (auto simp: page_inv_def cart_ok_def)

lemma reachable_totals:
  assumes "reachable p"
  shows "subtotal_text p = format_currency (Num (\<Sum>r\<leftarrow>rows p. line_amount r)) \<and>
         grand_total_text p = subtotal_text p"
proof -
  have ok: "\<forall>r\<in>set (rows p). row_ok r" using reachable_rows_ok [OF assms] .
  have fresh: "totals_fresh p" using reachable_page_inv [OF assms] by (simp add: page_inv_def)
  show ?thesis
    using fresh cart_subtotal_ok [OF ok] by (simp add: totals_fresh_def grand_total_of_def)
qed

lemma reachable_run: "reachable p \<Longrightarrow> reachable (run p es)"
  by (induction es arbitrary: p) (auto intro: reachable.step)

lemma storage_cart_ops:
  "storage (create_item_row d q u p) = storage p"
  "storage (edit_qty h s p) = storage p" "storage (edit_price h s p) = storage p"
  "storage (edit_desc h s p) = storage p" "storage (remove_row h p) = storage p"
  "storage (catalog_click k p) = storage p" "storage (clear_all b p) = storage p"
  "storage (edit_field f s p) = storage p" "storage (show_report p) = storage p"
  by (simp_all add: cart_op_defs catalog_click_def clear_all_def edit_field_def show_report_def
      split: option.splits customer_field.splits sum.splits)

subsection \<open>The page after loading\<close>

text \<open>
  On load the page holds the one blank row of \<open>createItemRow()\<close>: quantity
  \<open>"1"\<close>, rate \<open>"0"\<close>, amount zero.
\<close>

lemma line_amount_stamp [simp]: "line_amount (r\<lparr>line_total_text := x\<rparr>) = line_amount r"
  by (simp add: line_amount_def)

lemma rows_first_load:
  "rows (dom_loaded y m d (initial_page ls)) =
     [(new_row 0 [] (Num 1) (Num 0))\<lparr>line_total_text := format_currency (line_total (new_row 0 [] (Num 1) (Num 0)))\<rparr>]"
  by (simp add: dom_loaded_def initial_page_def create_blank_row_def create_item_row_def update_totals_eq)

lemma field_amount_zero: "field_amount ''0'' = 0"
  using parse_float_string_of_nat [of 0] by (simp add: field_amount_def)

lemma line_amount_blank_row: "line_amount (new_row h [] (Num 1) (Num 0)) = 0"
  by (simp add: line_amount_def new_row_def number_value_def valid_float_def valid_unsigned_def field_amount_zero)

lemma next_row_first_load: "next_row (dom_loaded y m d (initial_page ls)) = 1"
  by (simp add: dom_loaded_def initial_page_def create_blank_row_def create_item_row_def update_totals_eq)

lemma storage_first_load: "storage (dom_loaded y m d (initial_page ls)) = ls"
  by (simp add: dom_loaded_def initial_page_def create_blank_row_def create_item_row_def update_totals_eq)

lemma parse_currency_zero_display: "parse_currency (rupee_sign @ ''0.00'') = Num 0"
  using parse_currency_fixed2 [of 0] by (simp add: fixed2_digits_def)

lemma parse_currency_26000: "parse_currency (rupee_sign @ ''26000.00'') = Num 26000"
  using parse_currency_fixed2 [of 2600000]
  by (simp add: fixed2_digits_def string_of_nat_def digits_of_nat.simps)

subsection \<open>Properties of the page\<close>

text \<open>
  C1: In every state the page can reach, every displayed amount is current:
  each row's amount cell shows its quantity times its rate, the subtotal shows
  the sum of the row amounts, and the grand total equals the subtotal.
\<close>

theorem reachable_displays_current:
  assumes "reachable p"
  shows "subtotal_text p = format_currency (Num (\<Sum>r\<leftarrow>rows p. line_amount r)) \<and>
         grand_total_text p = subtotal_text p \<and>
         map line_total_text (rows p) = map (\<lambda>r. format_currency (Num (line_amount r))) (rows p)"
proof -
  have ok: "\<forall>r\<in>set (rows p). row_ok r" using reachable_rows_ok [OF assms] .
  have fresh: "totals_fresh p" using reachable_page_inv [OF assms] by (simp add: page_inv_def)
  have "\<And>r. r \<in> set (rows p) \<Longrightarrow> line_total_text r = format_currency (Num (line_amount r))"
    using fresh ok line_total_ok by (auto simp: totals_fresh_def)
  then have "map line_total_text (rows p) = map (\<lambda>r. format_currency (Num (line_amount r))) (rows p)"
    by simp
  with reachable_totals [OF assms] show ?thesis by blast
qed

theorem reachable_displays_current_witness:
  "subtotal_text (dom_loaded 2024 1 5 (initial_page empty_storage)) = format_currency (Num 0) \<and>
   grand_total_text (dom_loaded 2024 1 5 (initial_page empty_storage)) = format_currency (Num 0)"
proof -
  have r: "reachable (dom_loaded 2024 1 5 (initial_page empty_storage))"
    by (rule reachable.loaded)
  show ?thesis
    using reachable_displays_current [OF r]
    by (simp add: rows_first_load line_amount_blank_row)
qed

text \<open>
  C4: Pay Now with a grand total that reads as zero or less only shows the
  notice; nothing is recorded and the QR modal stays closed.
\<close>

theorem pay_now_rejects:
  assumes "js_le_zero (parse_currency (grand_total_text p))"
  shows "pay_now today_iso now_iso p = p\<lparr>alerts := alerts p @ [payment_notice]\<rparr>"
  unfolding pay_now_def Let_def using assms by (simp only: if_True)

theorem pay_now_rejects_witness:
  "pay_now ''2024-01-05T10:00:00.000Z'' ''2024-01-05T10:00:00.000Z'' (initial_page empty_storage) =
     (initial_page empty_storage)\<lparr>alerts := [payment_notice]\<rparr>"
proof -
  have h: "js_le_zero (parse_currency (grand_total_text (initial_page empty_storage)))"
    by (simp add: initial_page_def parse_currency_zero_display)
  show ?thesis using pay_now_rejects [OF h] by (simp add: initial_page_def)
qed

text \<open>
  C5: Pay Now with a positive grand total appends one sale of that amount to
  the stored history, dated by the invoice date field or, when it is empty, by
  the first ten characters of the current ISO timestamp, and opens the QR modal.
\<close>

theorem pay_now_accepts:
  assumes "\<not> js_le_zero (parse_currency (grand_total_text p))"
  shows "\<exists>x. 0 < x \<and> parse_currency (grand_total_text p) = Num x \<and>
     pay_now today_iso now_iso p =
       p\<lparr>storage := record_sale (storage p)
                      (if invoice_date p \<noteq> [] then invoice_date p else take 10 today_iso) (Num x) now_iso,
         qr_open := True\<rparr>"
proof -
  obtain x where x: "parse_currency (grand_total_text p) = Num x" "0 \<le> x"
    using parse_currency_nonneg by blast
  with assms have pos: "0 < x" by simp
  have "pay_now today_iso now_iso p =
       p\<lparr>storage := record_sale (storage p)
                      (if invoice_date p \<noteq> [] then invoice_date p else take 10 today_iso) (Num x) now_iso,
         qr_open := True\<rparr>"
    unfolding pay_now_def Let_def using assms x(1) by (simp only: if_False)
  with pos x show ?thesis by blast
qed

theorem pay_now_accepts_witness:
  "pay_now ''2024-01-05T10:00:00.000Z'' ''2024-01-05T10:00:00.000Z''
      ((initial_page empty_storage)\<lparr>grand_total_text := rupee_sign @ ''26000.00'', invoice_date := ''2024-01-05''\<rparr>) =
   (initial_page empty_storage)\<lparr>grand_total_text := rupee_sign @ ''26000.00'', invoice_date := ''2024-01-05'',
      storage := record_sale empty_storage ''2024-01-05'' (Num 26000) ''2024-01-05T10:00:00.000Z'', qr_open := True\<rparr>"
proof -
  let ?p = "(initial_page empty_storage)\<lparr>grand_total_text := rupee_sign @ ''26000.00'', invoice_date := ''2024-01-05''\<rparr>"
  have h: "\<not> js_le_zero (parse_currency (grand_total_text ?p))" by (simp add: parse_currency_26000)
  from pay_now_accepts [OF h, of "''2024-01-05T10:00:00.000Z''" "''2024-01-05T10:00:00.000Z''"]
  obtain x where "parse_currency (grand_total_text ?p) = Num x"
    and "pay_now ''2024-01-05T10:00:00.000Z'' ''2024-01-05T10:00:00.000Z'' ?p =
       ?p\<lparr>storage := record_sale (storage ?p) (if invoice_date ?p \<noteq> [] then invoice_date ?p else take 10 ''2024-01-05T10:00:00.000Z'') (Num x) ''2024-01-05T10:00:00.000Z'', qr_open := True\<rparr>"
    by blast
  with parse_currency_26000 show ?thesis by (simp add: initial_page_def)
qed

text \<open>
  C11: The stored sales history changes only on Pay Now, and then only by
  recording one sale of a positive amount; every other event leaves
  localStorage as it was.
\<close>

theorem page_step_storage:
  "storage (page_step p e) = storage p \<or>
   (\<exists>today_iso now_iso d x. e = PayNow today_iso now_iso \<and> 0 < x \<and>
      storage (page_step p e) = record_sale (storage p) d (Num x) now_iso)"
proof (cases e)
  case (PayNow today_iso now_iso)
  obtain x where x: "parse_currency (grand_total_text p) = Num x" "0 \<le> x"
    using parse_currency_nonneg by blast
  show ?thesis
  proof (cases "x \<le> 0")
    case True
    with x have "storage (pay_now today_iso now_iso p) = storage p"
      unfolding pay_now_def Let_def by simp
    with PayNow show ?thesis by simp
  next
    case False
    with x have st: "storage (pay_now today_iso now_iso p) = record_sale (storage p)
        (if invoice_date p \<noteq> [] then invoice_date p else take 10 today_iso) (Num x) now_iso"
      unfolding pay_now_def Let_def by simp
    have "0 < x" using False by simp
    with PayNow st show ?thesis by fastforce
  qed
qed (simp_all add: storage_cart_ops create_blank_row_def close_qr_def close_report_def)

text \<open>
  C14: Clear All, when confirmed, empties the table and the customer fields and
  shows zero totals, keeping the invoice date and the stored history; when the
  confirmation is declined it changes nothing.
\<close>

theorem clear_all_effect:
  "clear_all False p = p \<and>
   rows (clear_all True p) = [] \<and>
   subtotal_text (clear_all True p) = format_currency (Num 0) \<and>
   grand_total_text (clear_all True p) = format_currency (Num 0) \<and>
   customer_name (clear_all True p) = [] \<and> customer_phone (clear_all True p) = [] \<and>
   customer_address (clear_all True p) = [] \<and> notes_text (clear_all True p) = [] \<and>
   invoice_date (clear_all True p) = invoice_date p \<and> storage (clear_all True p) = storage p"
  by (simp add: clear_all_def update_totals_eq cart_subtotal_def grand_total_of_def)

end
