(* ===== verification/Spec2Isabelle.thy ===== *)
theory Spec2Isabelle
  imports App
begin

text \<open>
  \<^bold>\<open>Verification of the Star Furniture billing page (src/script.js).\<close>

  The program is one browser script.  It keeps an invoice as rows of a table
  (description, quantity, rate, amount), recomputes the amounts, the subtotal and
  the grand total whenever a quantity or a rate changes, adds rows by hand or from
  a product catalogue, and on Pay Now stores the sale in \<open>localStorage\<close> and
  shows a QR code; a report groups the stored sales by month.  The parts and the
  theories that model them:

  \<^item> JsNumber: the JavaScript Number type and the conversions the code calls
    (\<open>parseFloat\<close>, \<open>Number(string)\<close>, \<open>Number::toString\<close>, \<open>toFixed(2)\<close>
    as \<^const>\<open>js_to_fixed2\<close>, which writes a non-finite value by \<open>ToString\<close>),
    modelled from ECMAScript 2023; a finite Number is its exact rational value.
  \<^item> Currency: \<open>formatCurrency\<close> and \<open>parseCurrency\<close> (script.js 56--66) as
    \<^const>\<open>format_currency\<close> and \<^const>\<open>parse_currency\<close>.  Lemmas: the guard of
    \<open>formatCurrency\<close> shows non-finite values as zero; parse after format is the value rounded to cents below
    \<open>10^21\<close>; from \<open>10^21\<close> on the exponent notation of \<open>toFixed\<close> is misread
    (\<open>10^21\<close> reads back as 121); every display reads as a non-negative value.
  \<^item> Cart: the rows of \<open>itemsBody\<close> as a list of \<^typ>\<open>row\<close> records in a
    \<^typ>\<open>'a cart_scheme\<close> with the two total displays and a handle counter;
    \<open>createItemRow\<close> (68--107) is \<^const>\<open>create_item_row\<close>, the input and remove
    listeners (109--125) are \<^const>\<open>edit_qty\<close>, \<^const>\<open>edit_price\<close>,
    \<^const>\<open>edit_desc\<close> and \<^const>\<open>remove_row\<close>, \<open>updateTotals\<close> (127--147) is
    \<^const>\<open>update_totals\<close> with its \<open>forEach\<close> loop \<^const>\<open>total_rows\<close>, and the
    catalogue (29--54, 151--182, 295--304) is \<^const>\<open>products\<close>,
    \<^const>\<open>render_catalog\<close> and \<^const>\<open>catalog_click\<close>.  Lemmas: the totals after
    \<open>updateTotals\<close> are the exact sums (refining the \<open>forEach\<close> accumulation
    by a \<open>foldl\<close> over the rows); the cart invariant \<^const>\<open>cart_ok\<close> (distinct
    handles below the counter, sanitized inputs) is kept by every operation;
    removing a row drops exactly its handle and its amount from the totals;
    a catalogue card adds exactly its product.
  \<^item> Ledger: \<open>loadSales\<close>, \<open>saveSales\<close>, \<open>recordSale\<close> and
    \<open>buildMonthlyReport\<close> (184--250) over a \<^typ>\<open>local_storage\<close> that maps keys
    to the \<open>JSON.parse\<close> result of their text; thrown exceptions are
    \<^typ>\<open>js_error\<close> values of a sum type.  Lemmas: load after record appends
    exactly the new record; load fails soft; the report refines the
    specification's grouping by month (\<^const>\<open>spec_report\<close>, one entry per
    month in ascending order); the spec's example; a stored \<open>null\<close> record
    makes the report throw.
  \<^item> App: the page as a record \<^typ>\<open>page\<close> extending the cart with the form
    fields, the modals, the report table, the alerts and the storage; the
    listeners of the event-wiring section (254--375) are the steps of
    \<^const>\<open>page_step\<close> on an \<^typ>\<open>event\<close>, \<open>DOMContentLoaded\<close> is
    \<^const>\<open>dom_loaded\<close>, and \<^const>\<open>reachable\<close> is the inductive set of states
    reached by any sequence of events.  Lemmas: the page invariant holds in every
    reachable state (rule induction), so every display is current; Pay Now rejects
    a non-positive reading and otherwise records exactly one positive sale; no
    other event touches the storage; Clear All clears what the code clears.
  \<^item> This theory: whole-page runs, the specification's 26000 scenario and the
    negative total that Pay Now records as a positive sale.

  The environment is explicit: the clock is a parameter of the events that read
  it (\<open>new Date()\<close> as the local year, month and day on load, and as the ISO
  timestamp on payment), the answer to \<open>confirm\<close> is a parameter of Clear All,
  and typed text is a parameter of the edit events.  The browser's value
  sanitization of number, text and date inputs (HTML standard 4.10.5) is part of
  the model, since it decides what the code can read.

  Bounds and fuel.  The only bounded search is \<^const>\<open>dec_exp\<close>, the number of
  decimals of a Number, searched up to its denominator; every binary64 value is
  a dyadic rational \<open>a / 2^k\<close> and needs \<open>k \<le> 2^k\<close> decimals, so the fuel
  is enough for every value JavaScript can hold.  All other loops are structural
  recursion over lists, or \<^const>\<open>strip_zeros\<close> with its termination proof.

  Not modelled: the rounding of arithmetic to binary64 and overflow to Infinity
  (amounts are exact rationals, so the theorems state the exact sums the code
  approximates), the sign of zero, \<open>window.print\<close>, the CSS and
  \<open>aria-hidden\<close> attributes of the modals beyond open or closed, the image URLs
  of the cards, and HTML escaping of descriptions in the row template
  (the catalogue names contain no markup characters).  Strings are byte lists;
  every string the code compares or slices is ASCII, where byte order and
  JavaScript's UTF-16 order agree.  A month key naming an \<open>Object.prototype\<close>
  member is treated as a fresh key (the code would read the inherited member).
\<close>

section \<open>Whole-page scenarios\<close>

subsection \<open>Evaluation rules for the scenarios\<close>

lemma to_string_pos_1: "to_string_pos 1 = ''1''"
  by (simp add: to_string_pos_def dec_exp_def strip_zeros.simps string_of_nat_def digits_of_nat.simps Let_def)

lemma to_string_pos_25000: "to_string_pos 25000 = ''25000''"
  by (simp add: to_string_pos_def dec_exp_def strip_zeros.simps string_of_nat_def digits_of_nat.simps
      Let_def replicate_3)

lemma field_amount_lits:
  "field_amount ''1'' = 1" "field_amount ''2'' = 2" "field_amount ''500'' = 500"
  "field_amount ''1000'' = 1000" "field_amount ''25000'' = 25000"
  using parse_float_string_of_nat [of 1] parse_float_string_of_nat [of 2] parse_float_string_of_nat [of 500]
    parse_float_string_of_nat [of 1000] parse_float_string_of_nat [of 25000]
  by (simp_all add: field_amount_def string_of_nat_def digits_of_nat.simps)

lemma field_amount_neg5: "field_amount ''-5'' = -5"
  using parse_float_neg_string_of_nat [of 5] by (simp add: field_amount_def)

lemmas scenario_simps = rows_first_load next_row_first_load catalog_click_def find_product_def products_def
  create_item_row_def create_blank_row_def update_totals_eq edit_qty_def edit_price_def row_ids_def
  new_row_def line_amount_def number_value_def valid_float_def valid_unsigned_def
  to_string_pos_1 to_string_pos_25000 field_amount_lits field_amount_neg5 field_amount_zero

text \<open>
  The worked example of the specification: the page as loaded (one blank row),
  the \<open>King size bed\<close> card clicked, a blank row added and given quantity 2
  and rate 500.
\<close>

lemma spec_scenario_amounts:
  "map line_amount (rows (run (dom_loaded 2024 1 5 (initial_page empty_storage))
     [CatalogClick (Some ''bed''), AddItem, EditQty 2 ''2'', EditPrice 2 ''500''])) = [0, 25000, 1000]"
  by (simp add: scenario_simps)

text \<open>A row edited to quantity \<open>-5\<close> and rate 1000.\<close>

lemma negative_row_amounts:
  "map line_amount (rows (run (dom_loaded 2024 1 5 (initial_page empty_storage))
     [EditQty 0 ''-5'', EditPrice 0 ''1000''])) = [-5000]"
  by (simp add: scenario_simps)

lemma reachable_run_loaded: "reachable (run (dom_loaded y m d (initial_page ls)) es)"
  by (rule reachable_run [OF reachable.loaded])

subsection \<open>Properties\<close>

text \<open>
  C3: The specification's scenario: after adding the King size bed from the
  catalogue (quantity 1, rate 25000) and a manual row with quantity 2 and rate
  500 to the freshly loaded page, the subtotal and the grand total both show
  \<open>26000\<close> in rupees.
\<close>

theorem spec_scenario_totals:
  "subtotal_text (run (dom_loaded 2024 1 5 (initial_page empty_storage))
       [CatalogClick (Some ''bed''), AddItem, EditQty 2 ''2'', EditPrice 2 ''500'']) = format_currency (Num 26000) \<and>
   grand_total_text (run (dom_loaded 2024 1 5 (initial_page empty_storage))
       [CatalogClick (Some ''bed''), AddItem, EditQty 2 ''2'', EditPrice 2 ''500'']) = format_currency (Num 26000)"
proof -
  let ?p = "run (dom_loaded 2024 1 5 (initial_page empty_storage))
       [CatalogClick (Some ''bed''), AddItem, EditQty 2 ''2'', EditPrice 2 ''500'']"
  have t: "subtotal_text ?p = format_currency (Num (\<Sum>r\<leftarrow>rows ?p. line_amount r)) \<and>
      grand_total_text ?p = subtotal_text ?p"
    by (rule reachable_totals [OF reachable_run_loaded])
  have s: "(\<Sum>r\<leftarrow>rows ?p. line_amount r) = 26000"
    by (simp only: spec_scenario_amounts) simp
  show ?thesis using t by (simp only: s)
qed

text \<open>
  C6: A negative grand total is paid as a positive sale.  A row with quantity
  \<open>-5\<close> and rate 1000 shows the grand total \<open>-5000.00\<close>; Pay Now reads it
  with \<open>parseCurrency\<close>, which drops the minus sign, so the check
  \<open>grandTotal <= 0\<close> passes and a sale of 5000 is recorded, where the
  specification rejects a payment of a non-positive total.
\<close>

theorem negative_total_paid_as_positive:
  "grand_total_text (run (dom_loaded 2024 1 5 (initial_page empty_storage)) [EditQty 0 ''-5'', EditPrice 0 ''1000''])
      = rupee_sign @ ''-5000.00'' \<and>
   (\<exists>d. storage (page_step (run (dom_loaded 2024 1 5 (initial_page empty_storage))
                                [EditQty 0 ''-5'', EditPrice 0 ''1000'']) (PayNow today_iso now_iso))
        = record_sale empty_storage d (Num 5000) now_iso)"
proof -
  let ?p = "run (dom_loaded 2024 1 5 (initial_page empty_storage)) [EditQty 0 ''-5'', EditPrice 0 ''1000'']"
  have s: "(\<Sum>r\<leftarrow>rows ?p. line_amount r) = -5000"
    by (simp only: negative_row_amounts) simp
  have "subtotal_text ?p = format_currency (Num (\<Sum>r\<leftarrow>rows ?p. line_amount r)) \<and>
      grand_total_text ?p = subtotal_text ?p"
    by (rule reachable_totals [OF reachable_run_loaded])
  then have g: "grand_total_text ?p = format_currency (Num (-5000))" by (simp only: s)
  have shown: "format_currency (Num (-5000)) = rupee_sign @ ''-5000.00''"
    by (simp add: to_fixed2_def to_fixed2_nonneg_def fixed2_digits_def string_of_nat_def digits_of_nat.simps)
  have "parse_currency (format_currency (Num (-5000))) = Num 5000"
    using parse_currency_format_neg [of "-5000"] by (simp add: cents_def del: format_currency_Num)
  with g have "parse_currency (grand_total_text ?p) = Num 5000" by simp
  moreover have "storage ?p = empty_storage"
    by (simp add: storage_first_load storage_cart_ops)
  ultimately have "storage (pay_now today_iso now_iso ?p) = record_sale empty_storage
      (if invoice_date ?p \<noteq> [] then invoice_date ?p else take 10 today_iso) (Num 5000) now_iso"
    unfolding pay_now_def Let_def by simp
  with g shown show ?thesis by auto
qed

end
